theory Spec2Isabelle
  imports Complex_Main
begin

chapter \<open>The program\<close>

section \<open>JavaScript numbers\<close>

text \<open>
  A JavaScript number is modelled as an exact real number or one of the three IEEE
  special values. Arithmetic on finite values is exact (rounding and overflow of
  doubles are not modelled) and zero carries no sign; the special values follow the
  IEEE rules that the language applies: a division by zero never throws, it yields
  \<open>NaN\<close> or an infinity.
\<close>

datatype num = Fin real | PInf | NInf | NaN

fun isFinite :: "num \<Rightarrow> bool" where
  "isFinite (Fin _) = True"
| "isFinite _ = False"

instantiation num :: "{plus, minus, uminus, times, inverse, abs, ord}"
begin

fun plus_num :: "num \<Rightarrow> num \<Rightarrow> num" where
  "plus_num NaN _ = NaN"
| "plus_num _ NaN = NaN"
| "plus_num PInf NInf = NaN"
| "plus_num NInf PInf = NaN"
| "plus_num PInf _ = PInf"
| "plus_num _ PInf = PInf"
| "plus_num NInf _ = NInf"
| "plus_num _ NInf = NInf"
| "plus_num (Fin a) (Fin b) = Fin (a + b)"

fun uminus_num :: "num \<Rightarrow> num" where
  "uminus_num NaN = NaN"
| "uminus_num PInf = NInf"
| "uminus_num NInf = PInf"
| "uminus_num (Fin a) = Fin (- a)"

definition minus_num :: "num \<Rightarrow> num \<Rightarrow> num" where
  "minus_num a b = a + (- b)"

fun times_num :: "num \<Rightarrow> num \<Rightarrow> num" where
  "times_num NaN _ = NaN"
| "times_num _ NaN = NaN"
| "times_num (Fin a) (Fin b) = Fin (a * b)"
| "times_num (Fin a) PInf = (if a = 0 then NaN else if 0 < a then PInf else NInf)"
| "times_num (Fin a) NInf = (if a = 0 then NaN else if 0 < a then NInf else PInf)"
| "times_num PInf (Fin b) = (if b = 0 then NaN else if 0 < b then PInf else NInf)"
| "times_num NInf (Fin b) = (if b = 0 then NaN else if 0 < b then NInf else PInf)"
| "times_num PInf PInf = PInf"
| "times_num NInf NInf = PInf"
| "times_num PInf NInf = NInf"
| "times_num NInf PInf = NInf"

fun divide_num :: "num \<Rightarrow> num \<Rightarrow> num" where
  "divide_num NaN _ = NaN"
| "divide_num _ NaN = NaN"
| "divide_num (Fin a) (Fin b) =
     (if b \<noteq> 0 then Fin (a / b)
      else if a = 0 then NaN else if 0 < a then PInf else NInf)"
| "divide_num (Fin a) PInf = Fin 0"
| "divide_num (Fin a) NInf = Fin 0"
| "divide_num PInf (Fin b) = (if 0 \<le> b then PInf else NInf)"
| "divide_num NInf (Fin b) = (if 0 \<le> b then NInf else PInf)"
| "divide_num PInf PInf = NaN"
| "divide_num PInf NInf = NaN"
| "divide_num NInf PInf = NaN"
| "divide_num NInf NInf = NaN"

definition inverse_num :: "num \<Rightarrow> num" where
  "inverse_num a = divide (Fin 1) a"

fun abs_num :: "num \<Rightarrow> num" where
  "abs_num NaN = NaN"
| "abs_num PInf = PInf"
| "abs_num NInf = PInf"
| "abs_num (Fin a) = Fin \<bar>a\<bar>"

fun less_num :: "num \<Rightarrow> num \<Rightarrow> bool" where
  "less_num NaN _ = False"
| "less_num _ NaN = False"
| "less_num (Fin a) (Fin b) = (a < b)"
| "less_num (Fin a) PInf = True"
| "less_num NInf (Fin b) = True"
| "less_num NInf PInf = True"
| "less_num PInf _ = False"
| "less_num _ NInf = False"

fun less_eq_num :: "num \<Rightarrow> num \<Rightarrow> bool" where
  "less_eq_num NaN _ = False"
| "less_eq_num _ NaN = False"
| "less_eq_num a b = (a < b \<or> a = b)"

instance ..

end

text \<open>Strict equality \<open>a === b\<close> on numbers: \<open>NaN\<close> equals nothing.\<close>

definition strict_eq :: "num \<Rightarrow> num \<Rightarrow> bool" where
  "strict_eq a b = (a \<noteq> NaN \<and> b \<noteq> NaN \<and> a = b)"

text \<open>\<open>Math.max(a, b)\<close>, \<open>Math.sqrt(a)\<close> and \<open>Math.pow(a, 2)\<close>.\<close>

definition Math_max :: "num \<Rightarrow> num \<Rightarrow> num" where
  "Math_max a b = (if a = NaN \<or> b = NaN then NaN else if a < b then b else a)"

fun Math_sqrt :: "num \<Rightarrow> num" where
  "Math_sqrt NaN = NaN"
| "Math_sqrt PInf = PInf"
| "Math_sqrt NInf = NaN"
| "Math_sqrt (Fin a) = (if a < 0 then NaN else Fin (sqrt a))"

definition Math_pow2 :: "num \<Rightarrow> num" where
  "Math_pow2 a = a * a"

text \<open>The number of a length or a period.\<close>

definition of_count :: "nat \<Rightarrow> num" where
  "of_count n = Fin (real n)"

text \<open>
  A cell of an array that may hold numbers and \<open>null\<close>; a read past the end gives
  \<open>undefined\<close>. \<open>toNumber\<close> is the coercion that arithmetic applies.
\<close>

datatype jsval = Null | Undefined | Number num

definition array_get :: "jsval list \<Rightarrow> nat \<Rightarrow> jsval" where
  "array_get xs i = (if i < length xs then xs ! i else Undefined)"

fun toNumber :: "jsval \<Rightarrow> num" where
  "toNumber Null = Fin 0"
| "toNumber Undefined = NaN"
| "toNumber (Number a) = a"

section \<open>Technical indicator calculations\<close>

text \<open>\<open>xs.reduce((a, b) => a + b, 0)\<close>: a left fold from zero.\<close>

definition sum_reduce :: "num list \<Rightarrow> num" where
  "sum_reduce xs = foldl (+) (Fin 0) xs"

text \<open>\<open>calculateSMA(prices, period)\<close>, the same in \<open>monitor.js\<close> and \<open>script.js\<close>.\<close>

definition calculateSMA :: "num list \<Rightarrow> nat \<Rightarrow> num option" where
  "calculateSMA prices period =
     (if length prices < period then None
      else Some (sum_reduce (take period prices) / of_count period))"

text \<open>
  \<open>_emaArray(oldestFirst, period)\<close>. The loop writes \<open>result[i]\<close> from
  \<open>result[i - 1]\<close>. For a period of zero the seed assignment \<open>result[-1] = ...\<close>
  creates the property \<open>-1\<close> instead of an element, and the first iteration reads it
  back; \<open>minus1\<close> is that property.
\<close>

function ema_loop :: "num list \<Rightarrow> num \<Rightarrow> jsval \<Rightarrow> nat \<Rightarrow> jsval list \<Rightarrow> jsval list" where
  "ema_loop oldestFirst k minus1 i result =
     (if i < length oldestFirst then
        ema_loop oldestFirst k minus1 (i + 1)
          (result[i := Number (oldestFirst ! i * k
             + toNumber (if i = 0 then minus1 else array_get result (i - 1)) * (Fin 1 - k))])
      else result)"
  by pat_completeness auto
termination
  by (relation "measure (\<lambda>(oldestFirst, k, minus1, i, result). length oldestFirst - i)") auto

definition emaArray :: "num list \<Rightarrow> nat \<Rightarrow> jsval list" where
  "emaArray oldestFirst period =
     (if length oldestFirst < period then []
      else
        let k = Fin 2 / (of_count period + Fin 1);
            result = replicate (length oldestFirst) Null;
            seed = sum_reduce (take period oldestFirst) / of_count period;
            result = (if period = 0 then result else result[period - 1 := Number seed]);
            minus1 = (if period = 0 then Number seed else Undefined)
        in ema_loop oldestFirst k minus1 period result)"

text \<open>\<open>calculateRSI(prices, period = 14)\<close>: Wilder's smoothing.\<close>

definition changes_of :: "num list \<Rightarrow> num list" where
  "changes_of oldest =
     drop 1 (map (\<lambda>i. if i = 0 then Fin 0 else oldest ! i - oldest ! (i - 1))
               [0..<length oldest])"

definition seed_step :: "num list \<Rightarrow> nat \<Rightarrow> num \<times> num \<Rightarrow> num \<times> num" where
  "seed_step changes i = (\<lambda>(avgGain, avgLoss).
     if Fin 0 < changes ! i then (avgGain + changes ! i, avgLoss)
     else (avgGain, avgLoss + \<bar>changes ! i\<bar>))"

definition wilder_step :: "num list \<Rightarrow> nat \<Rightarrow> nat \<Rightarrow> num \<times> num \<Rightarrow> num \<times> num" where
  "wilder_step changes period i = (\<lambda>(avgGain, avgLoss).
     ((avgGain * (of_count period - Fin 1) + Math_max (changes ! i) (Fin 0)) / of_count period,
      (avgLoss * (of_count period - Fin 1) + Math_max (- (changes ! i)) (Fin 0)) / of_count period))"

definition calculateRSI :: "num list \<Rightarrow> nat \<Rightarrow> num option" where
  "calculateRSI prices period =
     (if length prices < period + 1 then None
      else
        let oldest = rev prices;
            changes = changes_of oldest;
            (avgGain, avgLoss) = fold (seed_step changes) [0..<period] (Fin 0, Fin 0);
            avgGain = avgGain / of_count period;
            avgLoss = avgLoss / of_count period;
            (avgGain, avgLoss) =
              fold (wilder_step changes period) [period..<length changes] (avgGain, avgLoss)
        in if strict_eq avgLoss (Fin 0) then Some (Fin 100)
           else Some (Fin 100 - (Fin 100 / (Fin 1 + avgGain / avgLoss))))"

text \<open>\<open>calculateMACD(prices)\<close>: standard (12, 26, 9).\<close>

record macd_result =
  macd :: num
  signal :: jsval
  histogram :: num

definition macdValues_of :: "num list \<Rightarrow> num list" where
  "macdValues_of oldest =
     (let ema12arr = emaArray oldest 12;
          ema26arr = emaArray oldest 26
      in map toNumber
           (filter (\<lambda>v. v \<noteq> Null)
              (map (\<lambda>i. if array_get ema12arr i \<noteq> Null \<and> array_get ema26arr i \<noteq> Null
                        then Number (toNumber (array_get ema12arr i)
                                     - toNumber (array_get ema26arr i))
                        else Null)
                 [0..<length oldest])))"

definition calculateMACD :: "num list \<Rightarrow> macd_result option" where
  "calculateMACD prices =
     (if length prices < 35 then None
      else
        let oldest = rev prices;
            macdValues = macdValues_of oldest
        in if length macdValues < 9 then None
           else
             let signalArr = emaArray macdValues 9;
                 signalLine = array_get signalArr (length signalArr - 1);
                 macdLine = macdValues ! (length macdValues - 1)
             in Some \<lparr>macd = macdLine, signal = signalLine,
                       histogram = macdLine - toNumber signalLine\<rparr>)"

text \<open>\<open>calculateBollingerBands(prices, period = 20)\<close>: two standard deviations.\<close>

record bollinger =
  upper :: num
  middle :: num
  lower :: num
  bandwidth :: num

definition calculateBollingerBands :: "num list \<Rightarrow> nat \<Rightarrow> bollinger option" where
  "calculateBollingerBands prices period =
     (if length prices < period then None
      else
        let recent = take period prices;
            sma = sum_reduce recent / of_count period;
            stdDev = Math_sqrt
              (foldl (\<lambda>sum p. sum + Math_pow2 (p - sma)) (Fin 0) recent / of_count period)
        in Some \<lparr>upper = sma + Fin 2 * stdDev,
                  middle = sma,
                  lower = sma - Fin 2 * stdDev,
                  bandwidth = (Fin 4 * stdDev) / sma * Fin 100\<rparr>)"

text \<open>\<open>calculateMomentum(prices)\<close>: change in percent over 5 and 21 trading days.\<close>

record momentum =
  week :: "num option"
  month :: "num option"

definition calculateMomentum :: "num list \<Rightarrow> momentum" where
  "calculateMomentum prices =
     \<lparr>week = (if 6 \<le> length prices
               then Some ((prices ! 0 - prices ! 5) / prices ! 5 * Fin 100) else None),
      month = (if 22 \<le> length prices
               then Some ((prices ! 0 - prices ! 21) / prices ! 21 * Fin 100) else None)\<rparr>"

section \<open>The provider's payload\<close>

text \<open>
  The JSON document of the provider. A text field is absent (\<open>None\<close>) or a string,
  and is truthy when it is a non-empty string. The time series is an object from date
  keys to daily records, kept in the order of its keys (which are distinct); a date key
  is identified with the time value that \<open>new Date(key)\<close> gives, in milliseconds.
  A daily record is \<open>null\<close> or an object whose \<open>4. close\<close> field is absent or a
  string.
\<close>

type_synonym date = int

datatype day_record = DayNull | DayObject "string option"

type_synonym time_series = "(date \<times> day_record) list"

record payload =
  Error_Message :: "string option"
  Note :: "string option"
  Information :: "string option"
  Time_Series_Daily :: "time_series option"

definition truthy :: "string option \<Rightarrow> bool" where
  "truthy v = (case v of None \<Rightarrow> False | Some s \<Rightarrow> s \<noteq> [])"

text \<open>
  What the code throws: the five failures of the fetch, by the prefix of their
  message, and the exceptions of the runtime (a property read on \<open>null\<close> or
  \<open>undefined\<close>, a body that is not JSON, a rejected request). The detail is the rest
  of the message.
\<close>

datatype error_kind =
  NETWORK_ERROR | INVALID_TICKER | RATE_LIMIT | API_KEY_ERROR | NO_DATA
  | TypeError | SyntaxError | FetchFailed

datatype detail = No_detail | Http_status nat | Text string

type_synonym error = "error_kind \<times> detail"

section \<open>\<open>parseFloat\<close>\<close>

text \<open>
  \<open>parseFloat\<close> skips leading white space and reads the longest prefix that is a
  decimal literal: a sign, then \<open>Infinity\<close> or digits with an optional fraction and
  an optional exponent. Without such a prefix the result is \<open>NaN\<close>; what follows the
  prefix is ignored.
\<close>

definition is_ws :: "char \<Rightarrow> bool" where
  "is_ws c = (c \<in> set [CHR '' '', CHR 0x09, CHR 0x0A, CHR 0x0B, CHR 0x0C, CHR 0x0D])"

definition is_digit :: "char \<Rightarrow> bool" where
  "is_digit c = (48 \<le> (of_char c :: nat) \<and> (of_char c :: nat) \<le> 57)"

definition digits_value :: "string \<Rightarrow> nat" where
  "digits_value ds = foldl (\<lambda>acc c. 10 * acc + ((of_char c :: nat) - 48)) 0 ds"

definition exponent_part :: "string \<Rightarrow> int" where
  "exponent_part s =
     (if s \<noteq> [] \<and> (hd s = CHR ''e'' \<or> hd s = CHR ''E'') then
        (let t = tl s in
         if t \<noteq> [] \<and> hd t = CHR ''-'' then - int (digits_value (takeWhile is_digit (tl t)))
         else if t \<noteq> [] \<and> hd t = CHR ''+'' then int (digits_value (takeWhile is_digit (tl t)))
         else int (digits_value (takeWhile is_digit t)))
      else 0)"

definition scale10 :: "real \<Rightarrow> int \<Rightarrow> real" where
  "scale10 m e = (if 0 \<le> e then m * 10 ^ nat e else m / 10 ^ nat (- e))"

definition unsigned_literal :: "string \<Rightarrow> num option" where
  "unsigned_literal s =
     (if take 8 s = ''Infinity'' then Some PInf
      else
        let ip = takeWhile is_digit s;
            r1 = dropWhile is_digit s;
            dot = (r1 \<noteq> [] \<and> hd r1 = CHR ''.'');
            fp = (if dot then takeWhile is_digit (tl r1) else []);
            r2 = (if dot then dropWhile is_digit (tl r1) else r1)
        in if ip = [] \<and> fp = [] then None
           else Some (Fin (scale10
                  (real (digits_value ip) + real (digits_value fp) / 10 ^ length fp)
                  (exponent_part r2))))"

definition parseFloat :: "string \<Rightarrow> num" where
  "parseFloat inputString =
     (let trimmed = dropWhile is_ws inputString in
      if trimmed \<noteq> [] \<and> hd trimmed = CHR ''-'' then
        (case unsigned_literal (tl trimmed) of None \<Rightarrow> NaN | Some v \<Rightarrow> - v)
      else if trimmed \<noteq> [] \<and> hd trimmed = CHR ''+'' then
        (case unsigned_literal (tl trimmed) of None \<Rightarrow> NaN | Some v \<Rightarrow> v)
      else (case unsigned_literal trimmed of None \<Rightarrow> NaN | Some v \<Rightarrow> v))"

text \<open>\<open>s.toUpperCase()\<close> on the letters of a ticker.\<close>

definition toUpperCase :: "string \<Rightarrow> string" where
  "toUpperCase s =
     map (\<lambda>c. if 97 \<le> (of_char c :: nat) \<and> (of_char c :: nat) \<le> 122
               then char_of ((of_char c :: nat) - 32) else c) s"

section \<open>Signals\<close>

text \<open>
  A signal is \<open>{ text, type }\<close>. The text is kept as the template that builds it, with
  the values it interpolates; the formatting of a number (\<open>toFixed\<close>) is not modelled.
  \<^item> \<open>Data_Old d\<close>: ``Warning: Data is d days old''
  \<^item> \<open>Above_SMA n p s\<close>, \<open>Below_SMA n p s\<close>: ``p% above (below) n-day SMA ($s)'', where
    \<open>p\<close> is the absolute value of the deviation in percent
  \<^item> \<open>Insufficient_SMA n have\<close>: ``Insufficient data for n-day SMA (need n days, have
    \<open>have\<close>)'', in \<open>script.js\<close> only
  \<^item> \<open>Golden_Cross\<close>, \<open>Death_Cross\<close>
  \<^item> \<open>RSI_Overbought r\<close>, \<open>RSI_Oversold r\<close>, \<open>RSI_Neutral r\<close>
  \<^item> \<open>MACD_Above m s\<close>, \<open>MACD_Below m s\<close>: ``MACD m above (below) signal (s)''
  \<^item> \<open>Above_Upper_Band u\<close>, \<open>Below_Lower_Band l\<close>, \<open>Within_Bands pct l u\<close>: ``Price at
    pct% within Bollinger Bands ($l - $u)''
\<close>

datatype sigtext =
  Data_Old int
  | Above_SMA nat num num
  | Below_SMA nat num num
  | Insufficient_SMA nat nat
  | Golden_Cross
  | Death_Cross
  | RSI_Overbought num
  | RSI_Oversold num
  | RSI_Neutral num
  | MACD_Above num num
  | MACD_Below num num
  | Above_Upper_Band num
  | Below_Lower_Band num
  | Within_Bands num num num

datatype sigtype = bullish | bearish | warning

record signal =
  "text" :: sigtext
  type :: sigtype

section \<open>\<open>processStockData\<close>\<close>

text \<open>
  \<open>timeSeries[date]['4. close']\<close> parsed by \<open>parseFloat\<close>: a property read on
  \<open>null\<close> or \<open>undefined\<close> throws, an absent field is \<open>undefined\<close> and parses to
  \<open>NaN\<close>.
\<close>

definition close_of :: "time_series \<Rightarrow> date \<Rightarrow> error + num" where
  "close_of timeSeries d =
     (case map_of timeSeries d of
        Some (DayObject (Some s)) \<Rightarrow> Inr (parseFloat s)
      | Some (DayObject None) \<Rightarrow> Inr NaN
      | Some DayNull \<Rightarrow> Inl (TypeError, No_detail)
      | None \<Rightarrow> Inl (TypeError, No_detail))"

fun closes :: "time_series \<Rightarrow> date list \<Rightarrow> error + num list" where
  "closes timeSeries [] = Inr []"
| "closes timeSeries (d # ds) =
     (case close_of timeSeries d of
        Inl e \<Rightarrow> Inl e
      | Inr p \<Rightarrow> (case closes timeSeries ds of Inl e \<Rightarrow> Inl e | Inr ps \<Rightarrow> Inr (p # ps)))"

text \<open>\<open>Object.keys(timeSeries).sort((a, b) => new Date(b) - new Date(a))\<close>: newest first.\<close>

definition sorted_dates :: "time_series \<Rightarrow> date list" where
  "sorted_dates timeSeries = rev (sort (map fst timeSeries))"

definition daysDiff_of :: "int \<Rightarrow> date \<Rightarrow> int" where
  "daysDiff_of now latestDate = (now - latestDate) div (1000 * 60 * 60 * 24)"

definition sma_signals_script :: "nat \<Rightarrow> num \<Rightarrow> num option \<Rightarrow> nat \<Rightarrow> signal list" where
  "sma_signals_script period latestPrice sma have =
     (case sma of
        Some sma \<Rightarrow>
          (let diffPercent = (latestPrice - sma) / sma * Fin 100 in
           if sma < latestPrice
           then [\<lparr>text = Above_SMA period \<bar>diffPercent\<bar> sma, type = bullish\<rparr>]
           else [\<lparr>text = Below_SMA period \<bar>diffPercent\<bar> sma, type = bearish\<rparr>])
      | None \<Rightarrow> [\<lparr>text = Insufficient_SMA period have, type = warning\<rparr>])"

definition cross_signals :: "num option \<Rightarrow> num option \<Rightarrow> signal list" where
  "cross_signals short long =
     (case (short, long) of
        (Some s, Some l) \<Rightarrow>
          (if l < s then [\<lparr>text = Golden_Cross, type = bullish\<rparr>]
           else [\<lparr>text = Death_Cross, type = bearish\<rparr>])
      | _ \<Rightarrow> [])"

definition stale_signals :: "int \<Rightarrow> date \<Rightarrow> signal list" where
  "stale_signals now latestDate =
     (let daysDiff = daysDiff_of now latestDate in
      if 3 < daysDiff then [\<lparr>text = Data_Old daysDiff, type = warning\<rparr>] else [])"

definition sma_signals :: "nat \<Rightarrow> num \<Rightarrow> num option \<Rightarrow> signal list" where
  "sma_signals period latestPrice sma =
     (case sma of
        Some sma \<Rightarrow>
          (let diff = (latestPrice - sma) / sma * Fin 100 in
           if sma < latestPrice
           then [\<lparr>text = Above_SMA period \<bar>diff\<bar> sma, type = bullish\<rparr>]
           else [\<lparr>text = Below_SMA period \<bar>diff\<bar> sma, type = bearish\<rparr>])
      | None \<Rightarrow> [])"

definition rsi_signals :: "num option \<Rightarrow> signal list" where
  "rsi_signals rsi =
     (case rsi of
        Some rsi \<Rightarrow>
          (if Fin 70 < rsi then [\<lparr>text = RSI_Overbought rsi, type = bearish\<rparr>]
           else if rsi < Fin 30 then [\<lparr>text = RSI_Oversold rsi, type = bullish\<rparr>]
           else [\<lparr>text = RSI_Neutral rsi, type = warning\<rparr>])
      | None \<Rightarrow> [])"

text \<open>\<open>macd.signal.toFixed(3)\<close> throws when the signal line is not a number.\<close>

definition macd_signals :: "macd_result option \<Rightarrow> error + signal list" where
  "macd_signals m =
     (case m of
        Some m \<Rightarrow>
          (case signal m of
             Number s \<Rightarrow>
               Inr (if Fin 0 < histogram m
                    then [\<lparr>text = MACD_Above (macd m) s, type = bullish\<rparr>]
                    else [\<lparr>text = MACD_Below (macd m) s, type = bearish\<rparr>])
           | _ \<Rightarrow> Inl (TypeError, No_detail))
      | None \<Rightarrow> Inr [])"

definition bb_signals :: "num \<Rightarrow> bollinger option \<Rightarrow> signal list" where
  "bb_signals latestPrice bb =
     (case bb of
        Some bb \<Rightarrow>
          (if upper bb < latestPrice
           then [\<lparr>text = Above_Upper_Band (upper bb), type = bearish\<rparr>]
           else if latestPrice < lower bb
           then [\<lparr>text = Below_Lower_Band (lower bb), type = bullish\<rparr>]
           else
             (let pct = (latestPrice - lower bb) / (upper bb - lower bb) * Fin 100
              in [\<lparr>text = Within_Bands pct (lower bb) (upper bb), type = warning\<rparr>]))
      | None \<Rightarrow> [])"

text \<open>The browser's \<open>processStockData\<close> (\<open>script.js\<close>): the 50-day and 200-day SMA.\<close>

record analysis_script =
  ticker :: string
  latestDate :: date
  latestPrice :: num
  sma50 :: "num option"
  sma200 :: "num option"
  signals :: "signal list"
  dataPoints :: nat

definition processStockData_script :: "int \<Rightarrow> payload \<Rightarrow> string \<Rightarrow> error + analysis_script" where
  "processStockData_script now data tkr =
     (case Time_Series_Daily data of
        None \<Rightarrow> Inl (TypeError, No_detail)
      | Some timeSeries \<Rightarrow>
          (case sorted_dates timeSeries of
             [] \<Rightarrow> Inl (TypeError, No_detail)
           | newest # _ \<Rightarrow>
               (case close_of timeSeries newest of
                  Inl e \<Rightarrow> Inl e
                | Inr price \<Rightarrow>
                    (case closes timeSeries (sorted_dates timeSeries) of
                       Inl e \<Rightarrow> Inl e
                     | Inr closingPrices \<Rightarrow>
                         (let latestDate = newest;
                              latestPrice = price;
                              sma50 = calculateSMA closingPrices 50;
                              sma200 = calculateSMA closingPrices 200;
                              signals = stale_signals now latestDate
                                @ sma_signals_script 50 latestPrice sma50 (length closingPrices)
                                @ sma_signals_script 200 latestPrice sma200 (length closingPrices)
                                @ cross_signals sma50 sma200
                          in Inr \<lparr>ticker = toUpperCase tkr,
                                   latestDate = latestDate,
                                   latestPrice = latestPrice,
                                   sma50 = sma50,
                                   sma200 = sma200,
                                   signals = signals,
                                   dataPoints = length closingPrices\<rparr>)))))"

text \<open>
  The digest's \<open>processStockData\<close> (\<open>monitor.js\<close>): the 50-day and 100-day SMA, RSI,
  MACD, Bollinger Bands and momentum. A null indicator pushes no signal.
\<close>

record analysis =
  ticker :: string
  latestDate :: date
  latestPrice :: num
  sma50 :: "num option"
  sma100 :: "num option"
  rsi :: "num option"
  macd :: "macd_result option"
  bb :: "bollinger option"
  mom :: momentum
  signals :: "signal list"
  dataPoints :: nat
  error :: "error option"

definition processStockData :: "int \<Rightarrow> payload \<Rightarrow> string \<Rightarrow> error + analysis" where
  "processStockData now data tkr =
     (case Time_Series_Daily data of
        None \<Rightarrow> Inl (TypeError, No_detail)
      | Some timeSeries \<Rightarrow>
          (case sorted_dates timeSeries of
             [] \<Rightarrow> Inl (TypeError, No_detail)
           | newest # _ \<Rightarrow>
               (case close_of timeSeries newest of
                  Inl e \<Rightarrow> Inl e
                | Inr price \<Rightarrow>
                    (case closes timeSeries (sorted_dates timeSeries) of
                       Inl e \<Rightarrow> Inl e
                     | Inr closingPrices \<Rightarrow>
                         (let latestDate = newest;
                              latestPrice = price;
                              sma50 = calculateSMA closingPrices 50;
                              sma100 = calculateSMA closingPrices 100;
                              rsi = calculateRSI closingPrices 14;
                              macd = calculateMACD closingPrices;
                              bb = calculateBollingerBands closingPrices 20;
                              mom = calculateMomentum closingPrices
                          in case macd_signals macd of
                               Inl e \<Rightarrow> Inl e
                             | Inr macdSignals \<Rightarrow>
                                 Inr \<lparr>ticker = toUpperCase tkr,
                                      latestDate = latestDate,
                                      latestPrice = latestPrice,
                                      sma50 = sma50,
                                      sma100 = sma100,
                                      rsi = rsi,
                                      macd = macd,
                                      bb = bb,
                                      mom = mom,
                                      signals = stale_signals now latestDate
                                        @ sma_signals 50 latestPrice sma50
                                        @ sma_signals 100 latestPrice sma100
                                        @ cross_signals sma50 sma100
                                        @ rsi_signals rsi
                                        @ macdSignals
                                        @ bb_signals latestPrice bb,
                                      dataPoints = length closingPrices,
                                      error = None\<rparr>)))))"

section \<open>The network, the clock and the store\<close>

text \<open>
  What the program does not decide is a parameter: the response to the \<open>k\<close>-th
  outbound request, the time until it arrives, by how much the \<open>k\<close>-th timer fires
  late (\<open>setTimeout\<close> waits at least its delay), and whether \<open>localStorage.setItem\<close>
  accepts a write. A response is a rejected request, or a status with a body that is a
  JSON document or not.

  The state is the clock \<open>Date.now()\<close>, in milliseconds, and the log of the outbound
  requests with the time of each. Time passes at an \<open>await\<close> only, and the calls of
  one run do not overlap: \<open>main\<close> awaits each fetch, and the page disables its button
  until the fetch has settled.
\<close>

datatype http_response = Rejected | Response bool nat "payload option"

record env =
  respond :: "nat \<Rightarrow> string \<Rightarrow> http_response"
  latency :: "nat \<Rightarrow> nat"
  overshoot :: "nat \<Rightarrow> nat"
  setItem_ok :: "string \<Rightarrow> bool"

record world =
  clock :: int
  calls :: "(int \<times> string) list"
  timers :: nat

definition API_RATE_LIMIT_DELAY :: int where
  "API_RATE_LIMIT_DELAY = 12000"

definition CACHE_DURATION_MS :: int where
  "CACHE_DURATION_MS = 4 * 60 * 60 * 1000"

text \<open>\<open>await new Promise(resolve => setTimeout(resolve, ms))\<close>\<close>

definition sleep :: "env \<Rightarrow> int \<Rightarrow> 'a world_scheme \<Rightarrow> 'a world_scheme" where
  "sleep e ms w =
     w\<lparr>clock := clock w + max ms 0 + int (overshoot e (timers w)), timers := timers w + 1\<rparr>"

text \<open>\<open>await fetch(url)\<close> and \<open>await response.json()\<close>, for the URL of a ticker.\<close>

definition http_get :: "env \<Rightarrow> string \<Rightarrow> 'a world_scheme \<Rightarrow> http_response \<times> 'a world_scheme" where
  "http_get e tkr w =
     (respond e (length (calls w)) tkr,
      w\<lparr>calls := calls w @ [(clock w, tkr)],
        clock := clock w + int (latency e (length (calls w)))\<rparr>)"

definition no_time_series :: "payload \<Rightarrow> bool" where
  "no_time_series data =
     (case Time_Series_Daily data of None \<Rightarrow> True | Some timeSeries \<Rightarrow> timeSeries = [])"

definition text_of :: "string option \<Rightarrow> string" where
  "text_of v = (case v of None \<Rightarrow> [] | Some s \<Rightarrow> s)"

section \<open>The digest: \<open>fetchStockData\<close> and \<open>main\<close> (\<open>monitor.js\<close>)\<close>

definition fetchStockData :: "env \<Rightarrow> string \<Rightarrow> world \<Rightarrow> (error + payload) \<times> world" where
  "fetchStockData e tkr w =
     (let (response, w) = http_get e tkr w in
      (case response of
         Rejected \<Rightarrow> Inl (FetchFailed, No_detail)
       | Response ok status body \<Rightarrow>
           if \<not> ok then Inl (NETWORK_ERROR, Http_status status)
           else
             (case body of
                None \<Rightarrow> Inl (SyntaxError, No_detail)
              | Some data \<Rightarrow>
                  if truthy (Error_Message data) then Inl (INVALID_TICKER, Text tkr)
                  else if truthy (Note data) then Inl (RATE_LIMIT, Text (text_of (Note data)))
                  else if truthy (Information data)
                    then Inl (API_KEY_ERROR, Text (text_of (Information data)))
                  else if no_time_series data then Inl (NO_DATA, Text tkr)
                  else Inr data),
       w))"

text \<open>
  One entry of \<open>results\<close>: the analysis, or \<open>{ ticker, error, signals }\<close> of the
  \<open>catch\<close> block.
\<close>

datatype result = Analysed analysis | Failed string error "signal list"

fun result_ticker :: "result \<Rightarrow> string" where
  "result_ticker (Analysed a) = ticker a"
| "result_ticker (Failed t err sigs) = t"

fun result_error :: "result \<Rightarrow> error option" where
  "result_error (Analysed a) = error a"
| "result_error (Failed t err sigs) = Some err"

fun result_signals :: "result \<Rightarrow> signal list" where
  "result_signals (Analysed a) = signals a"
| "result_signals (Failed t err sigs) = sigs"

text \<open>The body of the \<open>try\<close> block, and the entry that the loop pushes for its outcome.\<close>

definition analyse :: "env \<Rightarrow> string \<Rightarrow> world \<Rightarrow> (error + analysis) \<times> world" where
  "analyse e tkr w =
     (let (fetched, w) = fetchStockData e tkr w in
      (case fetched of
         Inl err \<Rightarrow> Inl err
       | Inr data \<Rightarrow> processStockData (clock w) data tkr,
       w))"

definition result_of :: "string \<Rightarrow> error + analysis \<Rightarrow> result" where
  "result_of tkr outcome =
     (case outcome of
        Inl err \<Rightarrow> Failed (toUpperCase tkr) err []
      | Inr a \<Rightarrow> Analysed a)"

text \<open>The loop of \<open>main\<close> over \<open>TICKERS\<close>, from index \<open>i\<close> on.\<close>

fun main_loop :: "env \<Rightarrow> nat \<Rightarrow> string list \<Rightarrow> world \<times> result list \<Rightarrow> world \<times> result list" where
  "main_loop e i [] (w, results) = (w, results)"
| "main_loop e i (tkr # rest) (w, results) =
     (let w = (if 0 < i then sleep e API_RATE_LIMIT_DELAY w else w);
          (outcome, w) = analyse e tkr w
      in main_loop e (i + 1) rest (w, results @ [result_of tkr outcome]))"

text \<open>The outcomes of the \<open>try\<close> blocks of that loop, in the order of the tickers.\<close>

fun attempts :: "env \<Rightarrow> nat \<Rightarrow> string list \<Rightarrow> world \<Rightarrow> (error + analysis) list" where
  "attempts e i [] w = []"
| "attempts e i (tkr # rest) w =
     (let w = (if 0 < i then sleep e API_RATE_LIMIT_DELAY w else w);
          (outcome, w) = analyse e tkr w
      in outcome # attempts e (i + 1) rest w)"

section \<open>The page: the cache and \<open>fetchStockData\<close> (\<open>script.js\<close>)\<close>

text \<open>
  A value of \<open>localStorage\<close> is the JSON text of \<open>{ timestamp, data }\<close>, or a string
  that \<open>JSON.parse\<close> or the destructuring rejects.
\<close>

datatype stored = Entry int payload | Garbage

record browser = world +
  localStorage :: "string \<rightharpoonup> stored"
  lastAPICallTime :: int

definition cacheKey :: "string \<Rightarrow> string" where
  "cacheKey tkr = ''stock_'' @ tkr"

definition getCachedData :: "string \<Rightarrow> browser \<Rightarrow> payload option \<times> browser" where
  "getCachedData tkr b =
     (case localStorage b (cacheKey tkr) of
        None \<Rightarrow> (None, b)
      | Some Garbage \<Rightarrow> (None, b\<lparr>localStorage := (localStorage b)(cacheKey tkr := None)\<rparr>)
      | Some (Entry timestamp data) \<Rightarrow>
          if clock b - timestamp < CACHE_DURATION_MS then (Some data, b)
          else (None, b\<lparr>localStorage := (localStorage b)(cacheKey tkr := None)\<rparr>))"

definition setCachedData :: "env \<Rightarrow> string \<Rightarrow> payload \<Rightarrow> browser \<Rightarrow> browser" where
  "setCachedData e tkr data b =
     (if setItem_ok e (cacheKey tkr)
      then b\<lparr>localStorage := (localStorage b)(cacheKey tkr \<mapsto> Entry (clock b) data)\<rparr>
      else b)"

definition fetchStockData_script :: "env \<Rightarrow> string \<Rightarrow> browser \<Rightarrow> (error + payload) \<times> browser" where
  "fetchStockData_script e tkr b =
     (let (cachedData, b) = getCachedData tkr b in
      case cachedData of
        Some data \<Rightarrow> (Inr data, b)
      | None \<Rightarrow>
          (let now = clock b;
               timeSinceLastCall = now - lastAPICallTime b;
               b = (if timeSinceLastCall < API_RATE_LIMIT_DELAY
                    then sleep e (API_RATE_LIMIT_DELAY - timeSinceLastCall) b else b);
               b = b\<lparr>lastAPICallTime := clock b\<rparr>;
               (response, b) = http_get e tkr b
           in case response of
                Rejected \<Rightarrow> (Inl (NETWORK_ERROR, No_detail), b)
              | Response ok status body \<Rightarrow>
                  if \<not> ok then (Inl (NETWORK_ERROR, No_detail), b)
                  else
                    (case body of
                       None \<Rightarrow> (Inl (NETWORK_ERROR, No_detail), b)
                     | Some data \<Rightarrow>
                         if truthy (Error_Message data) then (Inl (INVALID_TICKER, No_detail), b)
                         else if truthy (Note data) then (Inl (RATE_LIMIT, No_detail), b)
                         else if truthy (Information data) then (Inl (API_KEY_ERROR, No_detail), b)
                         else if no_time_series data then (Inl (NO_DATA, No_detail), b)
                         else (Inr data, setCachedData e tkr data b))))"

text \<open>
  A session of the page: the requests of the user, each after some idle time. The click
  handler calls \<open>fetchStockData\<close> once per request.
\<close>

fun session :: "env \<Rightarrow> (nat \<times> string) list \<Rightarrow> browser \<Rightarrow> browser" where
  "session e [] b = b"
| "session e ((idle, tkr) # rest) b =
     session e rest (snd (fetchStockData_script e tkr (b\<lparr>clock := clock b + int idle\<rparr>)))"

text \<open>Successive times that are at least \<open>d\<close> apart.\<close>

fun spaced :: "int \<Rightarrow> int list \<Rightarrow> bool" where
  "spaced d [] = True"
| "spaced d [t] = True"
| "spaced d (t # u # ts) = (d \<le> u - t \<and> spaced d (u # ts))"

section \<open>Invariants of the fetch layer\<close>

text \<open>The state in which the request goes out, after a miss.\<close>

definition before_call :: "env \<Rightarrow> string \<Rightarrow> browser \<Rightarrow> browser" where
  "before_call e tkr b =
     (let b = snd (getCachedData tkr b);
          b = (if clock b - lastAPICallTime b < API_RATE_LIMIT_DELAY
               then sleep e (API_RATE_LIMIT_DELAY - (clock b - lastAPICallTime b)) b else b)
      in b\<lparr>lastAPICallTime := clock b\<rparr>)"

text \<open>The page: the last request is the one that \<open>lastAPICallTime\<close> records.\<close>

definition page_inv :: "browser \<Rightarrow> bool" where
  "page_inv b \<longleftrightarrow>
     spaced API_RATE_LIMIT_DELAY (map fst (calls b))
     \<and> (calls b \<noteq> [] \<longrightarrow> fst (last (calls b)) = lastAPICallTime b)"

text \<open>The digest: every request so far lies a delay before the next one.\<close>

definition loop_inv :: "nat \<Rightarrow> world \<Rightarrow> bool" where
  "loop_inv i w \<longleftrightarrow>
     spaced API_RATE_LIMIT_DELAY (map fst (calls w))
     \<and> (calls w \<noteq> [] \<longrightarrow> fst (last (calls w)) \<le> clock w)
     \<and> (i = 0 \<longrightarrow> calls w = [])"

chapter \<open>Properties\<close>

section \<open>Insufficient data\<close>

text \<open>
  Claim C1. A newest-first price sequence shorter than what an indicator needs gives
  \<open>null\<close>, which is neither zero nor an exception: the simple moving average with
  fewer than \<open>period\<close> points, the 14-day RSI with fewer than 15, the MACD with fewer
  than 35 and the Bollinger Bands with fewer than 20.
\<close>

theorem short_series_gives_null:
  "(length prices < period \<longrightarrow> calculateSMA prices period = None)
   \<and> (length prices < 15 \<longrightarrow> calculateRSI prices 14 = None)
   \<and> (length prices < 35 \<longrightarrow> calculateMACD prices = None)
   \<and> (length prices < 20 \<longrightarrow> calculateBollingerBands prices 20 = None)"
  by (simp add: calculateSMA_def calculateRSI_def calculateMACD_def
      calculateBollingerBands_def)

theorem short_series_gives_null_witness:
  "calculateSMA [Fin 3, Fin 4] 3 = None
   \<and> calculateRSI [Fin 3, Fin 4] 14 = None
   \<and> calculateMACD [Fin 3, Fin 4] = None
   \<and> calculateBollingerBands [Fin 3, Fin 4] 20 = None"
  using short_series_gives_null [of "[Fin 3, Fin 4]" 3] by simp

section \<open>The EMA chain\<close>

declare ema_loop.simps [simp del]

lemma ema_loop_length: "length (ema_loop xs k m i r) = length r"
proof (induction xs k m i r rule: ema_loop.induct)
  case (1 xs k m i r)
  show ?case
  proof (cases "i < length xs")
    case True
    then show ?thesis using 1 by (subst ema_loop.simps) simp
  next
    case False
    then show ?thesis by (subst ema_loop.simps) simp
  qed
qed

lemma ema_loop_before: "j < i \<Longrightarrow> ema_loop xs k m i r ! j = r ! j"
proof (induction xs k m i r rule: ema_loop.induct)
  case (1 xs k m i r)
  show ?case
  proof (cases "i < length xs")
    case True
    then show ?thesis using 1 by (subst ema_loop.simps) simp
  next
    case False
    then show ?thesis by (subst ema_loop.simps) simp
  qed
qed

lemma ema_loop_step:
  "0 < i \<Longrightarrow> i \<le> j \<Longrightarrow> j < length xs \<Longrightarrow> length r = length xs \<Longrightarrow>
   ema_loop xs k m i r ! j =
     Number (xs ! j * k + toNumber (ema_loop xs k m i r ! (j - 1)) * (Fin 1 - k))"
proof (induction xs k m i r rule: ema_loop.induct)
  case (1 xs k m i r)
  define v where "v = Number (xs ! i * k
             + toNumber (if i = 0 then m else array_get r (i - 1)) * (Fin 1 - k))"
  define r' where "r' = r[i := v]"
  have il: "i < length xs" using 1 by simp
  have unf: "ema_loop xs k m i r = ema_loop xs k m (i + 1) r'"
    unfolding r'_def v_def using il by (subst ema_loop.simps) simp
  show ?case
  proof (cases "j = i")
    case True
    have a: "ema_loop xs k m (i + 1) r' ! i = v"
      using il 1(5) by (simp add: ema_loop_before r'_def)
    have "i - 1 < length r" using il 1(5) by arith
    then have d: "array_get r (i - 1) = r ! (i - 1)"
      by (simp add: array_get_def)
    have "ema_loop xs k m (i + 1) r' ! (i - 1) = r' ! (i - 1)"
      by (rule ema_loop_before) simp
    also have "\<dots> = r ! (i - 1)" using 1(2) by (simp add: r'_def)
    finally have b: "ema_loop xs k m (i + 1) r' ! (i - 1) = r ! (i - 1)" .
    have "v = Number (xs ! i * k + toNumber (r ! (i - 1)) * (Fin 1 - k))"
      using 1(2) d by (simp add: v_def)
    then show ?thesis using True a b unf by simp
  next
    case False
    then have "i + 1 \<le> j" using 1(3) by simp
    moreover have "length r' = length xs" using 1(5) by (simp add: r'_def)
    ultimately show ?thesis
      unfolding unf using 1(1) [OF il] 1(4) by (simp add: r'_def v_def)
  qed
qed

lemma emaArray_short: "length xs < period \<Longrightarrow> emaArray xs period = []"
  by (simp add: emaArray_def)

lemma emaArray_length:
  "period \<le> length xs \<Longrightarrow> length (emaArray xs period) = length xs"
  by (simp add: emaArray_def Let_def ema_loop_length)

lemma emaArray_null:
  "period \<le> length xs \<Longrightarrow> i < period - 1 \<Longrightarrow> emaArray xs period ! i = Null"
  by (simp add: emaArray_def Let_def ema_loop_before)

lemma emaArray_seed:
  "0 < period \<Longrightarrow> period \<le> length xs \<Longrightarrow>
   emaArray xs period ! (period - 1) = Number (sum_reduce (take period xs) / of_count period)"
  by (simp add: emaArray_def Let_def ema_loop_before)

lemma emaArray_step:
  "0 < period \<Longrightarrow> period \<le> i \<Longrightarrow> i < length xs \<Longrightarrow>
   emaArray xs period ! i =
     Number (xs ! i * (Fin 2 / (of_count period + Fin 1))
             + toNumber (emaArray xs period ! (i - 1))
               * (Fin 1 - Fin 2 / (of_count period + Fin 1)))"
  by (simp add: emaArray_def Let_def ema_loop_step)

lemma emaArray_defined:
  "0 < period \<Longrightarrow> period \<le> length xs \<Longrightarrow> period - 1 \<le> i \<Longrightarrow> i < length xs \<Longrightarrow>
   \<exists>e. emaArray xs period ! i = Number e"
proof (cases "i = period - 1")
  case True
  assume "0 < period" "period \<le> length xs"
  then show ?thesis using True emaArray_seed by blast
next
  case False
  assume "0 < period" "period \<le> length xs" "period - 1 \<le> i" "i < length xs"
  then have "period \<le> i" using False by arith
  then show ?thesis using emaArray_step \<open>0 < period\<close> \<open>i < length xs\<close> by blast
qed


lemma length_filter_from: "length (filter (\<lambda>i. m \<le> i) [0..<n]) = n - m"
  by (induction n) (auto simp: Suc_diff_le)

lemma emaArray_cell_null_iff:
  assumes "0 < period" "period \<le> length xs" "i < length xs"
  shows "array_get (emaArray xs period) i \<noteq> Null \<longleftrightarrow> period - 1 \<le> i"
proof (cases "period - 1 \<le> i")
  case True
  then obtain e where "emaArray xs period ! i = Number e"
    using emaArray_defined assms by blast
  then show ?thesis using True assms by (simp add: array_get_def emaArray_length)
next
  case False
  then have "emaArray xs period ! i = Null" using assms by (simp add: emaArray_null)
  then show ?thesis using False assms by (simp add: array_get_def emaArray_length)
qed

lemma macdValues_length:
  assumes "26 \<le> length oldest"
  shows "length (macdValues_of oldest) = length oldest - 25"
proof -
  let ?c = "\<lambda>i. array_get (emaArray oldest 12) i \<noteq> Null
                \<and> array_get (emaArray oldest 26) i \<noteq> Null"
  let ?f = "\<lambda>i. if ?c i
                then Number (toNumber (array_get (emaArray oldest 12) i)
                             - toNumber (array_get (emaArray oldest 26) i))
                else Null"
  have "length (macdValues_of oldest)
        = length (filter (\<lambda>v. v \<noteq> Null) (map ?f [0..<length oldest]))"
    by (simp add: macdValues_of_def Let_def)
  also have "\<dots> = length (filter ((\<lambda>v. v \<noteq> Null) \<circ> ?f) [0..<length oldest])"
    by (simp only: filter_map length_map)
  also have "filter ((\<lambda>v. v \<noteq> Null) \<circ> ?f) [0..<length oldest]
             = filter (\<lambda>i. 25 \<le> i) [0..<length oldest]"
  proof (rule filter_cong [OF refl])
    fix i assume "i \<in> set [0..<length oldest]"
    then have il: "i < length oldest" by simp
    have a: "array_get (emaArray oldest 12) i \<noteq> Null \<longleftrightarrow> 11 \<le> i"
      using emaArray_cell_null_iff [of 12 oldest i] assms il by simp
    have b: "array_get (emaArray oldest 26) i \<noteq> Null \<longleftrightarrow> 25 \<le> i"
      using emaArray_cell_null_iff [of 26 oldest i] assms il by simp
    show "((\<lambda>v. v \<noteq> Null) \<circ> ?f) i = (25 \<le> i)"
      unfolding comp_def a b by auto
  qed
  finally show ?thesis by (simp add: length_filter_from)
qed

text \<open>
  Claim C4, as the code has it. For an oldest-first price sequence with at least
  \<open>period\<close> entries and a positive period, the EMA chain has the length of its input,
  \<open>null\<close> at every index before \<open>period - 1\<close>, the simple mean of the first
  \<open>period\<close> entries at index \<open>period - 1\<close>, and from index \<open>period\<close> on
  \<open>ema[i] = price[i] * k + ema[i - 1] * (1 - k)\<close> with \<open>k = 2 / (period + 1)\<close>.
  For a sequence shorter than the period the chain is the empty array.
\<close>

theorem emaArray_aligned:
  "(0 < period \<and> period \<le> length oldestFirst \<longrightarrow>
      length (emaArray oldestFirst period) = length oldestFirst
      \<and> (\<forall>i. i < period - 1 \<longrightarrow> emaArray oldestFirst period ! i = Null)
      \<and> emaArray oldestFirst period ! (period - 1)
          = Number (sum_reduce (take period oldestFirst) / of_count period)
      \<and> (\<forall>i. period \<le> i \<and> i < length oldestFirst \<longrightarrow>
           (\<exists>prev. emaArray oldestFirst period ! (i - 1) = Number prev
              \<and> emaArray oldestFirst period ! i
                  = Number (oldestFirst ! i * (Fin 2 / (of_count period + Fin 1))
                            + prev * (Fin 1 - Fin 2 / (of_count period + Fin 1))))))
   \<and> (length oldestFirst < period \<longrightarrow> emaArray oldestFirst period = [])"
proof (intro conjI allI impI)
  assume "length oldestFirst < period"
  then show "emaArray oldestFirst period = []" by (rule emaArray_short)
next
  assume "0 < period \<and> period \<le> length oldestFirst"
  then show "length (emaArray oldestFirst period) = length oldestFirst"
    by (simp add: emaArray_length)
next
  fix i
  assume "0 < period \<and> period \<le> length oldestFirst" and "i < period - 1"
  then show "emaArray oldestFirst period ! i = Null"
    by (simp add: emaArray_null)
next
  assume "0 < period \<and> period \<le> length oldestFirst"
  then show "emaArray oldestFirst period ! (period - 1)
        = Number (sum_reduce (take period oldestFirst) / of_count period)"
    by (elim conjE) (rule emaArray_seed)
next
  fix i
  assume p: "0 < period \<and> period \<le> length oldestFirst"
    and h: "period \<le> i \<and> i < length oldestFirst"
  have "period - 1 \<le> i - 1" "i - 1 < length oldestFirst" using h by arith+
  then obtain prev where prev: "emaArray oldestFirst period ! (i - 1) = Number prev"
    using emaArray_defined p by blast
  show "\<exists>prev. emaArray oldestFirst period ! (i - 1) = Number prev
            \<and> emaArray oldestFirst period ! i
                = Number (oldestFirst ! i * (Fin 2 / (of_count period + Fin 1))
                          + prev * (Fin 1 - Fin 2 / (of_count period + Fin 1)))"
    using prev emaArray_step [of period i oldestFirst] h p by simp
qed

theorem emaArray_aligned_witness:
  "length (emaArray [Fin 2, Fin 4, Fin 9] 2) = 3
   \<and> emaArray [Fin 2, Fin 4, Fin 9] 2 ! 0 = Null
   \<and> emaArray [Fin 2, Fin 4, Fin 9] 2 ! 1 = Number (Fin 3)
   \<and> emaArray [Fin 2, Fin 4, Fin 9] 2 ! 2 = Number (Fin 7)
   \<and> emaArray [Fin 2] 2 = []"
proof -
  let ?xs = "[Fin 2, Fin 4, Fin 9]"
  have h: "0 < (2::nat) \<and> 2 \<le> length ?xs" by simp
  note t = emaArray_aligned [of 2 ?xs, THEN conjunct1, THEN mp, OF h]
  have "length [Fin 2] < (2::nat)" by simp
  then have e: "emaArray [Fin 2] 2 = []"
    by (rule emaArray_aligned [of 2 "[Fin 2]", THEN conjunct2, THEN mp])
  have a: "length (emaArray ?xs 2) = 3" using t by simp
  have "\<forall>i. i < 2 - 1 \<longrightarrow> emaArray ?xs 2 ! i = Null" using t by blast
  then have b: "emaArray ?xs 2 ! 0 = Null" by simp
  have "emaArray ?xs 2 ! (2 - 1) = Number (sum_reduce (take 2 ?xs) / of_count 2)"
    using t by blast
  then have c: "emaArray ?xs 2 ! 1 = Number (Fin 3)"
    by (simp add: sum_reduce_def of_count_def)
  have "\<forall>i. 2 \<le> i \<and> i < length ?xs \<longrightarrow>
         (\<exists>prev. emaArray ?xs 2 ! (i - 1) = Number prev
            \<and> emaArray ?xs 2 ! i
                = Number (?xs ! i * (Fin 2 / (of_count 2 + Fin 1))
                          + prev * (Fin 1 - Fin 2 / (of_count 2 + Fin 1))))"
    using t by blast
  then have "2 \<le> (2::nat) \<and> 2 < length ?xs \<longrightarrow>
         (\<exists>prev. emaArray ?xs 2 ! (2 - 1) = Number prev
            \<and> emaArray ?xs 2 ! 2
                = Number (?xs ! 2 * (Fin 2 / (of_count 2 + Fin 1))
                          + prev * (Fin 1 - Fin 2 / (of_count 2 + Fin 1))))"
    by (rule spec)
  then have "\<exists>prev. emaArray ?xs 2 ! (2 - 1) = Number prev
            \<and> emaArray ?xs 2 ! 2
                = Number (?xs ! 2 * (Fin 2 / (of_count 2 + Fin 1))
                          + prev * (Fin 1 - Fin 2 / (of_count 2 + Fin 1)))"
    by simp
  then have d: "emaArray ?xs 2 ! 2 = Number (Fin 7)"
    using c by (auto simp: of_count_def minus_num_def)
  show ?thesis using a b c d e by simp
qed

text \<open>
  The claim as written, for every sequence and period, fails on a sequence shorter than
  the period: the chain is then the empty array, not an array of the input's length.
\<close>

theorem emaArray_not_aligned_when_short:
  "emaArray [Fin 1, Fin 2] 3 = [] \<and> length (emaArray [Fin 1, Fin 2] 3) \<noteq> length [Fin 1, Fin 2]"
  by (simp add: emaArray_def)

section \<open>MACD\<close>

text \<open>
  Claim C10. For a newest-first price sequence of at least 35 points the MACD-line
  series built inside \<open>calculateMACD\<close> has at least 10 values, so the branch for
  fewer than 9 values is never taken, and \<open>calculateMACD\<close> gives \<open>null\<close> exactly
  when the input has fewer than 35 points.
\<close>

theorem macd_null_only_when_short:
  "(35 \<le> length prices \<longrightarrow> 10 \<le> length (macdValues_of (rev prices)))
   \<and> (calculateMACD prices = None \<longleftrightarrow> length prices < 35)"
proof -
  have a: "10 \<le> length (macdValues_of (rev prices))" if "35 \<le> length prices"
    using that macdValues_length [of "rev prices"] by simp
  have "calculateMACD prices \<noteq> None" if "35 \<le> length prices"
    using a [OF that] that by (simp add: calculateMACD_def Let_def)
  moreover have "calculateMACD prices = None" if "length prices < 35"
    using that by (simp add: calculateMACD_def)
  ultimately show ?thesis using a by (metis not_less)
qed

theorem macd_null_only_when_short_witness:
  "35 \<le> length (replicate 35 (Fin 1))
   \<and> 10 \<le> length (macdValues_of (rev (replicate 35 (Fin 1))))
   \<and> calculateMACD (replicate 35 (Fin 1)) \<noteq> None"
  using macd_null_only_when_short [of "replicate 35 (Fin 1)"] by simp


section \<open>RSI\<close>




lemma Fin_minus: "Fin a - Fin b = Fin (a - b)"
  by (simp add: minus_num_def)













section \<open>Extraction and the signals\<close>








lemma toUpperCase_ibm: "toUpperCase ''ibm'' = ''IBM''"
  by code_simp

lemmas eval_defs =
  processStockData_def processStockData_script_def sorted_dates_def close_of_def
  parseFloat_def unsigned_literal_def is_ws_def is_digit_def digits_value_def scale10_def
  exponent_part_def calculateSMA_def calculateRSI_def calculateMACD_def
  calculateBollingerBands_def calculateMomentum_def stale_signals_def daysDiff_of_def
  sma_signals_def sma_signals_script_def cross_signals_def rsi_signals_def macd_signals_def
  bb_signals_def Let_def minus_num_def




lemma no_insufficient_parts:
  "\<forall>s\<in>set (stale_signals now d). \<forall>n m. text s \<noteq> Insufficient_SMA n m"
  "\<forall>s\<in>set (sma_signals period price sma). \<forall>n m. text s \<noteq> Insufficient_SMA n m"
  "\<forall>s\<in>set (cross_signals short long). \<forall>n m. text s \<noteq> Insufficient_SMA n m"
  "\<forall>s\<in>set (rsi_signals r). \<forall>n m. text s \<noteq> Insufficient_SMA n m"
  "\<forall>s\<in>set (bb_signals price b). \<forall>n m. text s \<noteq> Insufficient_SMA n m"
  "macd_signals mr = Inr sigs \<Longrightarrow> \<forall>s\<in>set sigs. \<forall>n m. text s \<noteq> Insufficient_SMA n m"
  by (auto simp: stale_signals_def sma_signals_def cross_signals_def rsi_signals_def
      bb_signals_def macd_signals_def Let_def split: option.splits if_splits jsval.splits)

text \<open>
  Claim C5, as the code has it. In the browser (\<open>script.js\<close>) a null 50-day or 200-day
  SMA gives a warning signal ``insufficient data'' that names the required and the
  available number of points. The digest (\<open>monitor.js\<close>) has no such signal: a null
  SMA pushes nothing.
\<close>

theorem null_sma_signal:
  "(processStockData_script now data tkr = Inr a \<longrightarrow>
      (analysis_script.sma50 a = None \<longrightarrow>
         \<lparr>text = Insufficient_SMA 50 (analysis_script.dataPoints a), type = warning\<rparr>
           \<in> set (analysis_script.signals a))
      \<and> (sma200 a = None \<longrightarrow>
         \<lparr>text = Insufficient_SMA 200 (analysis_script.dataPoints a), type = warning\<rparr>
           \<in> set (analysis_script.signals a)))
   \<and> (processStockData now data tkr = Inr b \<longrightarrow>
      (\<forall>s\<in>set (signals b). \<forall>n m. text s \<noteq> Insufficient_SMA n m))"
proof (intro conjI impI)
  assume h: "processStockData_script now data tkr = Inr a"
  { assume "analysis_script.sma50 a = None"
    then show "\<lparr>text = Insufficient_SMA 50 (analysis_script.dataPoints a), type = warning\<rparr>
           \<in> set (analysis_script.signals a)"
      using h
      by (auto simp: processStockData_script_def Let_def sma_signals_script_def
          split: option.splits list.splits sum.splits) }
  { assume "sma200 a = None"
    then show "\<lparr>text = Insufficient_SMA 200 (analysis_script.dataPoints a), type = warning\<rparr>
           \<in> set (analysis_script.signals a)"
      using h
      by (auto simp: processStockData_script_def Let_def sma_signals_script_def
          split: option.splits list.splits sum.splits) }
next
  assume h: "processStockData now data tkr = Inr b"
  then obtain now' d price s50 s100 r mr sigs bo where
    sg: "signals b = stale_signals now' d @ sma_signals 50 price s50 @ sma_signals 100 price s100
           @ cross_signals s50 s100 @ rsi_signals r @ sigs @ bb_signals price bo"
    and ms: "macd_signals mr = Inr sigs"
    by (auto simp: processStockData_def Let_def split: option.splits list.splits sum.splits)
  show "\<forall>s\<in>set (signals b). \<forall>n m. text s \<noteq> Insufficient_SMA n m"
    unfolding sg using no_insufficient_parts(1-5) no_insufficient_parts(6) [OF ms]
    by (simp add: ball_Un)
qed


theorem null_sma_signal_witness:
  "processStockData_script 0
     \<lparr>Error_Message = None, Note = None, Information = None,
      Time_Series_Daily = Some [(0, DayObject (Some ''10.5''))]\<rparr> ''ibm''
   = Inr \<lparr>analysis_script.ticker = ''IBM'', analysis_script.latestDate = 0,
          analysis_script.latestPrice = Fin 10.5,
          analysis_script.sma50 = None, sma200 = None,
          analysis_script.signals = [\<lparr>text = Insufficient_SMA 50 1, type = warning\<rparr>,
                     \<lparr>text = Insufficient_SMA 200 1, type = warning\<rparr>],
          analysis_script.dataPoints = 1\<rparr>
   \<and> \<lparr>text = Insufficient_SMA 50 1, type = warning\<rparr>
        \<in> set [\<lparr>text = Insufficient_SMA 50 1, type = warning\<rparr>,
                 \<lparr>text = Insufficient_SMA 200 1, type = warning\<rparr>]"
proof -
  let ?P = "\<lparr>Error_Message = None, Note = None, Information = None,
      Time_Series_Daily = Some [(0, DayObject (Some ''10.5''))]\<rparr>"
  let ?A = "\<lparr>analysis_script.ticker = ''IBM'', analysis_script.latestDate = 0,
          analysis_script.latestPrice = Fin 10.5,
          analysis_script.sma50 = None, sma200 = None,
          analysis_script.signals = [\<lparr>text = Insufficient_SMA 50 1, type = warning\<rparr>,
                     \<lparr>text = Insufficient_SMA 200 1, type = warning\<rparr>],
          analysis_script.dataPoints = 1\<rparr>"
  have ev: "processStockData_script 0 ?P ''ibm'' = Inr ?A"
    by (simp add: eval_defs toUpperCase_ibm)
  show ?thesis
    using null_sma_signal [of 0 ?P "''ibm''" ?A] ev by simp
qed

text \<open>
  The claim as written fails in \<open>monitor.js\<close>: with one data point both SMAs are null
  and the signal list is empty.
\<close>

theorem monitor_has_no_insufficient_data_signal:
  "processStockData 0
     \<lparr>Error_Message = None, Note = None, Information = None,
      Time_Series_Daily = Some [(0, DayObject (Some ''10.5''))]\<rparr> ''ibm''
   = Inr \<lparr>ticker = ''IBM'', latestDate = 0, latestPrice = Fin 10.5,
          sma50 = None, sma100 = None, rsi = None, macd = None, bb = None,
          mom = \<lparr>week = None, month = None\<rparr>,
          signals = [], dataPoints = 1, error = None\<rparr>"
  by (simp add: eval_defs toUpperCase_ibm)

section \<open>Division by zero\<close>

lemma divide_by_zero_not_finite: "\<not> isFinite (x / Fin 0)"
  by (cases x) simp_all

lemma times_not_finite: "\<not> isFinite v \<Longrightarrow> \<not> isFinite (v * Fin 100)"
  by (cases v) simp_all

lemma abs_not_finite: "\<not> isFinite v \<Longrightarrow> \<not> isFinite \<bar>v\<bar>"
  by (cases v) simp_all

lemma sum_reduce_zeros: "sum_reduce (replicate n (Fin 0)) = Fin 0"
proof -
  have "foldl (+) (Fin 0) (replicate n (Fin 0)) = Fin 0" by (induction n) simp_all
  then show ?thesis by (simp add: sum_reduce_def)
qed

text \<open>
  Claim C7, as the code has it. No percentage computation guards its denominator, and
  none raises: with a zero denominator the division yields \<open>NaN\<close> or an infinity, which
  is the value returned (momentum over one week and one month, Bollinger bandwidth) or
  reported in the signal (position within the Bollinger band, deviation from the SMA).
\<close>

theorem zero_denominator_not_guarded:
  "(6 \<le> length prices \<and> prices ! 5 = Fin 0 \<longrightarrow>
      (\<exists>v. week (calculateMomentum prices) = Some v \<and> \<not> isFinite v))
   \<and> (22 \<le> length prices \<and> prices ! 21 = Fin 0 \<longrightarrow>
      (\<exists>v. month (calculateMomentum prices) = Some v \<and> \<not> isFinite v))
   \<and> (calculateBollingerBands prices 20 = Some b \<and> middle b = Fin 0 \<longrightarrow>
      \<not> isFinite (bandwidth b))
   \<and> (\<not> upper b < price \<and> \<not> price < lower b \<and> upper b - lower b = Fin 0 \<longrightarrow>
      (\<exists>pct. bb_signals price (Some b)
                = [\<lparr>text = Within_Bands pct (lower b) (upper b), type = warning\<rparr>]
             \<and> \<not> isFinite pct))
   \<and> (\<exists>p. \<not> isFinite p
        \<and> sma_signals period price (Some (Fin 0))
            = [if Fin 0 < price then \<lparr>text = Above_SMA period p (Fin 0), type = bullish\<rparr>
               else \<lparr>text = Below_SMA period p (Fin 0), type = bearish\<rparr>]
        \<and> sma_signals_script period price (Some (Fin 0)) n
            = [if Fin 0 < price then \<lparr>text = Above_SMA period p (Fin 0), type = bullish\<rparr>
               else \<lparr>text = Below_SMA period p (Fin 0), type = bearish\<rparr>])"
proof (intro conjI impI)
  assume "6 \<le> length prices \<and> prices ! 5 = Fin 0"
  then show "\<exists>v. week (calculateMomentum prices) = Some v \<and> \<not> isFinite v"
    by (simp add: calculateMomentum_def divide_by_zero_not_finite times_not_finite)
next
  assume "22 \<le> length prices \<and> prices ! 21 = Fin 0"
  then show "\<exists>v. month (calculateMomentum prices) = Some v \<and> \<not> isFinite v"
    by (simp add: calculateMomentum_def divide_by_zero_not_finite times_not_finite)
next
  assume "calculateBollingerBands prices 20 = Some b \<and> middle b = Fin 0"
  then obtain sd where "bandwidth b = (Fin 4 * sd) / Fin 0 * Fin 100"
    by (auto simp: calculateBollingerBands_def Let_def split: if_splits)
  then show "\<not> isFinite (bandwidth b)"
    by (simp add: divide_by_zero_not_finite times_not_finite)
next
  assume "\<not> upper b < price \<and> \<not> price < lower b \<and> upper b - lower b = Fin 0"
  then show "\<exists>pct. bb_signals price (Some b)
                = [\<lparr>text = Within_Bands pct (lower b) (upper b), type = warning\<rparr>]
             \<and> \<not> isFinite pct"
    by (simp add: bb_signals_def Let_def divide_by_zero_not_finite times_not_finite)
next
  let ?p = "\<bar>(price - Fin 0) / Fin 0 * Fin 100\<bar>"
  have "\<not> isFinite ?p"
    by (intro abs_not_finite times_not_finite divide_by_zero_not_finite)
  then show "\<exists>p. \<not> isFinite p
        \<and> sma_signals period price (Some (Fin 0))
            = [if Fin 0 < price then \<lparr>text = Above_SMA period p (Fin 0), type = bullish\<rparr>
               else \<lparr>text = Below_SMA period p (Fin 0), type = bearish\<rparr>]
        \<and> sma_signals_script period price (Some (Fin 0)) n
            = [if Fin 0 < price then \<lparr>text = Above_SMA period p (Fin 0), type = bullish\<rparr>
               else \<lparr>text = Below_SMA period p (Fin 0), type = bearish\<rparr>]"
    by (intro exI [of _ ?p]) (simp add: sma_signals_def sma_signals_script_def Let_def)
qed

theorem zero_denominator_not_guarded_witness:
  "(\<exists>v. week (calculateMomentum (replicate 22 (Fin 0))) = Some v \<and> \<not> isFinite v)
   \<and> (\<exists>v. month (calculateMomentum (replicate 22 (Fin 0))) = Some v \<and> \<not> isFinite v)
   \<and> calculateBollingerBands (replicate 22 (Fin 0)) 20
       = Some \<lparr>upper = Fin 0, middle = Fin 0, lower = Fin 0, bandwidth = NaN\<rparr>
   \<and> (\<exists>pct. bb_signals (Fin 0)
               (Some \<lparr>upper = Fin 0, middle = Fin 0, lower = Fin 0, bandwidth = NaN\<rparr>)
             = [\<lparr>text = Within_Bands pct (Fin 0) (Fin 0), type = warning\<rparr>]
           \<and> \<not> isFinite pct)"
proof -
  let ?prices = "replicate 22 (Fin 0)"
  let ?b = "\<lparr>upper = Fin 0, middle = Fin 0, lower = Fin 0, bandwidth = NaN\<rparr>"
  have sq: "foldl (\<lambda>sum p. sum + Math_pow2 (p - Fin 0)) (Fin 0) (replicate n (Fin 0)) = Fin 0"
    for n by (induction n) (simp_all add: Math_pow2_def Fin_minus)
  have bb: "calculateBollingerBands ?prices 20 = Some ?b"
    by (simp add: calculateBollingerBands_def Let_def sum_reduce_zeros of_count_def sq
        Fin_minus)
  have h1: "6 \<le> length ?prices \<and> ?prices ! 5 = Fin 0" by simp
  have h2: "22 \<le> length ?prices \<and> ?prices ! 21 = Fin 0" by simp
  have h3: "calculateBollingerBands ?prices 20 = Some ?b \<and> middle ?b = Fin 0"
    using bb by simp
  have h4: "\<not> upper ?b < Fin 0 \<and> \<not> Fin 0 < lower ?b \<and> upper ?b - lower ?b = Fin 0"
    by (simp add: minus_num_def)
  note t = zero_denominator_not_guarded [of ?prices ?b "Fin 0"]
  show ?thesis using t h1 h2 h3 h4 bb by simp
qed

text \<open>
  The claim as written fails: with a zero close five days back the one-week momentum is
  \<open>Infinity\<close>, not null; a constant window makes \<open>upper - lower\<close> zero and the signal
  reports \<open>NaN\<close> percent; a zero SMA gives a deviation of \<open>Infinity\<close>.
\<close>

theorem zero_denominator_gives_a_value:
  "week (calculateMomentum [Fin 1, Fin 1, Fin 1, Fin 1, Fin 1, Fin 0]) = Some PInf
   \<and> calculateBollingerBands (replicate 20 (Fin 5)) 20
       = Some \<lparr>upper = Fin 5, middle = Fin 5, lower = Fin 5, bandwidth = Fin 0\<rparr>
   \<and> bb_signals (Fin 5) (Some \<lparr>upper = Fin 5, middle = Fin 5, lower = Fin 5, bandwidth = Fin 0\<rparr>)
       = [\<lparr>text = Within_Bands NaN (Fin 5) (Fin 5), type = warning\<rparr>]
   \<and> sma_signals 50 (Fin 3) (Some (Fin 0))
       = [\<lparr>text = Above_SMA 50 PInf (Fin 0), type = bullish\<rparr>]"
  by (simp add: calculateMomentum_def calculateBollingerBands_def sum_reduce_def of_count_def
      Let_def numeral_eq_Suc minus_num_def Math_pow2_def bb_signals_def sma_signals_def)

section \<open>The orchestrator\<close>

lemma processStockData_fields:
  "processStockData now data tkr = Inr a \<Longrightarrow> error a = None \<and> ticker a = toUpperCase tkr"
  by (auto simp: processStockData_def Let_def split: option.splits list.splits sum.splits)

lemma analyse_fields:
  "fst (analyse e tkr w) = Inr a \<Longrightarrow> error a = None \<and> ticker a = toUpperCase tkr"
  by (auto simp: analyse_def Let_def split: prod.splits sum.splits dest: processStockData_fields)

lemma attempts_length: "length (attempts e i tickers w) = length tickers"
  by (induction tickers arbitrary: i w) (simp_all add: Let_def split: prod.splits)

lemma attempts_fields:
  "j < length tickers \<Longrightarrow> attempts e i tickers w ! j = Inr a \<Longrightarrow>
   error a = None \<and> ticker a = toUpperCase (tickers ! j)"
proof (induction tickers arbitrary: i w j)
  case Nil
  then show ?case by simp
next
  case (Cons tkr rest)
  define w1 where "w1 = (if 0 < i then sleep e API_RATE_LIMIT_DELAY w else w)"
  have unf: "attempts e i (tkr # rest) w
             = fst (analyse e tkr w1) # attempts e (i + 1) rest (snd (analyse e tkr w1))"
    by (simp add: w1_def Let_def split: prod.splits)
  show ?case
  proof (cases j)
    case 0
    then show ?thesis using Cons.prems(2) analyse_fields [of e tkr w1 a] unfolding unf by simp
  next
    case (Suc k)
    then show ?thesis using Cons.prems Cons.IH [of k "i + 1" "snd (analyse e tkr w1)"]
      unfolding unf by simp
  qed
qed

lemma main_loop_results:
  "snd (main_loop e i tickers (w, acc))
     = acc @ map (\<lambda>(tkr, outcome). result_of tkr outcome) (zip tickers (attempts e i tickers w))"
proof (induction tickers arbitrary: i w acc)
  case Nil
  then show ?case by simp
next
  case (Cons tkr rest)
  define w1 where "w1 = (if 0 < i then sleep e API_RATE_LIMIT_DELAY w else w)"
  have m: "main_loop e i (tkr # rest) (w, acc)
           = main_loop e (i + 1) rest
               (snd (analyse e tkr w1), acc @ [result_of tkr (fst (analyse e tkr w1))])"
    by (simp add: w1_def Let_def split: prod.splits)
  have t: "attempts e i (tkr # rest) w
           = fst (analyse e tkr w1) # attempts e (i + 1) rest (snd (analyse e tkr w1))"
    by (simp add: w1_def Let_def split: prod.splits)
  show ?case unfolding m t by (simp add: Cons.IH)
qed

lemma main_loop_nth:
  assumes "j < length tickers"
  shows "snd (main_loop e 0 tickers (w, [])) ! j
         = result_of (tickers ! j) (attempts e 0 tickers w ! j)"
  using assms by (simp add: main_loop_results attempts_length)

text \<open>
  Claim C2. The run over the tickers gives exactly one result per ticker, in the order
  of the tickers and under the ticker's name. The result of a ticker comes from the
  attempt at that ticker: when the fetch or the analysis fails, the result holds the
  failure as its \<open>error\<close> and an empty signal list, and the loop goes on to the next
  ticker; when they succeed the result is the analysis, whose \<open>error\<close> is null.
\<close>

theorem one_result_per_ticker:
  "length (snd (main_loop e 0 tickers (w, []))) = length tickers
   \<and> map result_ticker (snd (main_loop e 0 tickers (w, []))) = map toUpperCase tickers
   \<and> length (attempts e 0 tickers w) = length tickers
   \<and> (\<forall>j<length tickers.
        (case attempts e 0 tickers w ! j of
           Inl err \<Rightarrow>
             snd (main_loop e 0 tickers (w, [])) ! j = Failed (toUpperCase (tickers ! j)) err []
             \<and> result_error (snd (main_loop e 0 tickers (w, [])) ! j) = Some err
             \<and> result_signals (snd (main_loop e 0 tickers (w, [])) ! j) = []
         | Inr a \<Rightarrow>
             snd (main_loop e 0 tickers (w, [])) ! j = Analysed a
             \<and> result_error (snd (main_loop e 0 tickers (w, [])) ! j) = None))"
proof -
  define rs where "rs = snd (main_loop e 0 tickers (w, []))"
  define os where "os = attempts e 0 tickers w"
  have len: "length rs = length tickers"
    by (simp add: rs_def main_loop_results attempts_length)
  have olen: "length os = length tickers" by (simp add: os_def attempts_length)
  have nth: "rs ! j = result_of (tickers ! j) (os ! j)" if "j < length tickers" for j
    unfolding rs_def os_def using that by (rule main_loop_nth)
  have out: "(case os ! j of
           Inl err \<Rightarrow> rs ! j = Failed (toUpperCase (tickers ! j)) err []
             \<and> result_error (rs ! j) = Some err \<and> result_signals (rs ! j) = []
         | Inr a \<Rightarrow> rs ! j = Analysed a \<and> result_error (rs ! j) = None)"
    if j: "j < length tickers" for j
  proof (cases "os ! j")
    case (Inl err)
    then show ?thesis using nth [OF j] by (simp add: result_of_def)
  next
    case (Inr a)
    then have "error a = None" using attempts_fields [OF j] by (simp add: os_def)
    then show ?thesis using Inr nth [OF j] by (simp add: result_of_def)
  qed
  have tick: "map result_ticker rs = map toUpperCase tickers"
  proof (rule nth_equalityI)
    show "length (map result_ticker rs) = length (map toUpperCase tickers)"
      using len by simp
    fix j assume "j < length (map result_ticker rs)"
    then have j: "j < length tickers" using len by simp
    have "result_ticker (rs ! j) = toUpperCase (tickers ! j)"
    proof (cases "os ! j")
      case (Inl err)
      then show ?thesis using nth [OF j] by (simp add: result_of_def)
    next
      case (Inr a)
      then have "ticker a = toUpperCase (tickers ! j)"
        using attempts_fields [OF j] by (simp add: os_def)
      then show ?thesis using Inr nth [OF j] by (simp add: result_of_def)
    qed
    then show "map result_ticker rs ! j = map toUpperCase tickers ! j"
      using j len by simp
  qed
  show ?thesis
    unfolding rs_def [symmetric] os_def [symmetric] using len olen tick out by simp
qed

theorem one_result_per_ticker_witness:
  "attempts (\<lparr>respond = (\<lambda>k t. if t = ''AAA''
          then Response True 200 (Some \<lparr>Error_Message = None, Note = None, Information = None,
                                         Time_Series_Daily = None\<rparr>)
          else Response True 200 (Some \<lparr>Error_Message = None, Note = None, Information = None,
                 Time_Series_Daily = Some [(0, DayObject (Some ''10.5''))]\<rparr>)),
       latency = (\<lambda>k. 300), overshoot = (\<lambda>k. 2), setItem_ok = (\<lambda>key. True)\<rparr>) 0 [''AAA'', ''BBB''] (\<lparr>clock = 1000, calls = [], timers = 0\<rparr>)
     = [Inl (NO_DATA, Text ''AAA''),
        Inr \<lparr>ticker = ''BBB'', latestDate = 0, latestPrice = Fin 10.5,
             sma50 = None, sma100 = None, rsi = None, macd = None, bb = None,
             mom = \<lparr>week = None, month = None\<rparr>,
             signals = [], dataPoints = 1, error = None\<rparr>]
   \<and> length (snd (main_loop (\<lparr>respond = (\<lambda>k t. if t = ''AAA''
          then Response True 200 (Some \<lparr>Error_Message = None, Note = None, Information = None,
                                         Time_Series_Daily = None\<rparr>)
          else Response True 200 (Some \<lparr>Error_Message = None, Note = None, Information = None,
                 Time_Series_Daily = Some [(0, DayObject (Some ''10.5''))]\<rparr>)),
       latency = (\<lambda>k. 300), overshoot = (\<lambda>k. 2), setItem_ok = (\<lambda>key. True)\<rparr>) 0 [''AAA'', ''BBB''] ((\<lparr>clock = 1000, calls = [], timers = 0\<rparr>), []))) = 2
   \<and> map result_ticker (snd (main_loop (\<lparr>respond = (\<lambda>k t. if t = ''AAA''
          then Response True 200 (Some \<lparr>Error_Message = None, Note = None, Information = None,
                                         Time_Series_Daily = None\<rparr>)
          else Response True 200 (Some \<lparr>Error_Message = None, Note = None, Information = None,
                 Time_Series_Daily = Some [(0, DayObject (Some ''10.5''))]\<rparr>)),
       latency = (\<lambda>k. 300), overshoot = (\<lambda>k. 2), setItem_ok = (\<lambda>key. True)\<rparr>) 0 [''AAA'', ''BBB''] ((\<lparr>clock = 1000, calls = [], timers = 0\<rparr>), []))) = [''AAA'', ''BBB'']
   \<and> snd (main_loop (\<lparr>respond = (\<lambda>k t. if t = ''AAA''
          then Response True 200 (Some \<lparr>Error_Message = None, Note = None, Information = None,
                                         Time_Series_Daily = None\<rparr>)
          else Response True 200 (Some \<lparr>Error_Message = None, Note = None, Information = None,
                 Time_Series_Daily = Some [(0, DayObject (Some ''10.5''))]\<rparr>)),
       latency = (\<lambda>k. 300), overshoot = (\<lambda>k. 2), setItem_ok = (\<lambda>key. True)\<rparr>) 0 [''AAA'', ''BBB''] ((\<lparr>clock = 1000, calls = [], timers = 0\<rparr>), [])) ! 0
       = Failed ''AAA'' (NO_DATA, Text ''AAA'') []
   \<and> result_error (snd (main_loop (\<lparr>respond = (\<lambda>k t. if t = ''AAA''
          then Response True 200 (Some \<lparr>Error_Message = None, Note = None, Information = None,
                                         Time_Series_Daily = None\<rparr>)
          else Response True 200 (Some \<lparr>Error_Message = None, Note = None, Information = None,
                 Time_Series_Daily = Some [(0, DayObject (Some ''10.5''))]\<rparr>)),
       latency = (\<lambda>k. 300), overshoot = (\<lambda>k. 2), setItem_ok = (\<lambda>key. True)\<rparr>) 0 [''AAA'', ''BBB''] ((\<lparr>clock = 1000, calls = [], timers = 0\<rparr>), [])) ! 1) = None"
proof -
  let ?E = "\<lparr>respond = (\<lambda>k t. if t = ''AAA''
          then Response True 200 (Some \<lparr>Error_Message = None, Note = None, Information = None,
                                         Time_Series_Daily = None\<rparr>)
          else Response True 200 (Some \<lparr>Error_Message = None, Note = None, Information = None,
                 Time_Series_Daily = Some [(0, DayObject (Some ''10.5''))]\<rparr>)),
       latency = (\<lambda>k. 300), overshoot = (\<lambda>k. 2), setItem_ok = (\<lambda>key. True)\<rparr>"
  let ?P = "\<lparr>Error_Message = None, Note = None, Information = None,
       Time_Series_Daily = Some [(0, DayObject (Some ''10.5''))]\<rparr>"
  let ?W = "\<lparr>clock = 1000, calls = [], timers = 0\<rparr>"
  let ?B0 = "\<lparr>clock = 1000000, calls = [], timers = 0,
       localStorage = Map.empty, lastAPICallTime = 0\<rparr>"
  let ?B1 = "\<lparr>clock = 1000300, calls = [(1000000, ''BBB'')], timers = 0,
       localStorage = [''stock_BBB'' \<mapsto> Entry 1000300 \<lparr>Error_Message = None, Note = None, Information = None,
       Time_Series_Daily = Some [(0, DayObject (Some ''10.5''))]\<rparr>],
       lastAPICallTime = 1000000\<rparr>"
  let ?rs = "snd (main_loop ?E 0 [''AAA'', ''BBB''] (?W, []))"
  let ?A = "\<lparr>ticker = ''BBB'', latestDate = 0, latestPrice = Fin 10.5,
             sma50 = None, sma100 = None, rsi = None, macd = None, bb = None,
             mom = \<lparr>week = None, month = None\<rparr>,
             signals = [], dataPoints = 1, error = None\<rparr>"
  have up: "toUpperCase ''AAA'' = ''AAA''" "toUpperCase ''BBB'' = ''BBB''" by code_simp+
  have os: "attempts ?E 0 [''AAA'', ''BBB''] ?W = [Inl (NO_DATA, Text ''AAA''), Inr ?A]"
    by (simp add: analyse_def fetchStockData_def http_get_def truthy_def no_time_series_def
        sleep_def API_RATE_LIMIT_DELAY_def eval_defs up)
  note t = one_result_per_ticker [of ?E "[''AAA'', ''BBB'']" ?W]
  have len: "length ?rs = 2" using t by (simp del: main_loop.simps attempts.simps)
  have tick: "map result_ticker ?rs = [''AAA'', ''BBB'']"
    using t up by (simp del: main_loop.simps attempts.simps)
  have each: "\<forall>j<length [''AAA'', ''BBB''::string].
        (case attempts ?E 0 [''AAA'', ''BBB''] ?W ! j of
           Inl err \<Rightarrow> ?rs ! j = Failed (toUpperCase ([''AAA'', ''BBB''] ! j)) err []
             \<and> result_error (?rs ! j) = Some err \<and> result_signals (?rs ! j) = []
         | Inr a \<Rightarrow> ?rs ! j = Analysed a \<and> result_error (?rs ! j) = None)"
    using t by (elim conjE)
  have r0: "?rs ! 0 = Failed ''AAA'' (NO_DATA, Text ''AAA'') []"
    using each [rule_format, of 0] up unfolding os by (simp del: main_loop.simps)
  have r1: "result_error (?rs ! 1) = None"
    using each [rule_format, of 1] unfolding os by (simp del: main_loop.simps)
  show ?thesis using os len tick r0 r1 by (intro conjI)
qed

section \<open>The cache\<close>

lemma getCachedData_world:
  "clock (snd (getCachedData tkr b)) = clock b"
  "calls (snd (getCachedData tkr b)) = calls b"
  "timers (snd (getCachedData tkr b)) = timers b"
  "lastAPICallTime (snd (getCachedData tkr b)) = lastAPICallTime b"
  by (auto simp: getCachedData_def split: option.splits stored.splits)

lemma getCachedData_miss_removes:
  "fst (getCachedData tkr b) = None \<Longrightarrow>
   localStorage (snd (getCachedData tkr b)) (cacheKey tkr) = None"
  by (auto simp: getCachedData_def split: option.splits stored.splits if_splits)



lemma fetch_miss:
  assumes "fst (getCachedData tkr b) = None"
  shows "\<exists>r. fetchStockData_script e tkr b
           = (r, case r of
                   Inl err \<Rightarrow> snd (http_get e tkr (before_call e tkr b))
                 | Inr data \<Rightarrow> setCachedData e tkr data (snd (http_get e tkr (before_call e tkr b))))"
  using assms
  by (cases "getCachedData tkr b")
     (auto simp: fetchStockData_script_def before_call_def Let_def
        split: prod.splits http_response.splits option.splits)


lemma before_call_fields:
  "calls (before_call e tkr b) = calls b"
  "lastAPICallTime (before_call e tkr b) = clock (before_call e tkr b)"
  "clock b \<le> clock (before_call e tkr b)"
  "lastAPICallTime b + API_RATE_LIMIT_DELAY \<le> clock (before_call e tkr b)"
  "fst (getCachedData tkr b) = None \<Longrightarrow>
     localStorage (before_call e tkr b) (cacheKey tkr) = None"
  by (auto simp: before_call_def Let_def sleep_def getCachedData_world
      getCachedData_miss_removes)

lemma http_get_fields:
  "calls (snd (http_get e tkr w)) = calls w @ [(clock w, tkr)]"
  "clock (snd (http_get e tkr w)) = clock w + int (latency e (length (calls w)))"
  "timers (snd (http_get e tkr w)) = timers w"
  by (simp_all add: http_get_def)

lemma http_get_browser:
  "localStorage (snd (http_get e tkr b)) = localStorage b"
  "lastAPICallTime (snd (http_get e tkr b)) = lastAPICallTime b"
  by (simp_all add: http_get_def)

lemma setCachedData_fields:
  "calls (setCachedData e tkr data b) = calls b"
  "clock (setCachedData e tkr data b) = clock b"
  "lastAPICallTime (setCachedData e tkr data b) = lastAPICallTime b"
  by (simp_all add: setCachedData_def)

lemma fetch_miss_fields:
  assumes "fst (getCachedData tkr b) = None"
  shows "calls (snd (fetchStockData_script e tkr b))
           = calls b @ [(clock (before_call e tkr b), tkr)]"
    and "lastAPICallTime (snd (fetchStockData_script e tkr b)) = clock (before_call e tkr b)"
    and "clock (before_call e tkr b) \<le> clock (snd (fetchStockData_script e tkr b))"
    and "fetchStockData_script e tkr b = (Inl err, b') \<Longrightarrow> localStorage b' (cacheKey tkr) = None"
    and "fetchStockData_script e tkr b = (Inr data, b') \<Longrightarrow>
           localStorage b' (cacheKey tkr)
             = (if setItem_ok e (cacheKey tkr) then Some (Entry (clock b') data) else None)"
proof -
  obtain r where r: "fetchStockData_script e tkr b
           = (r, case r of
                   Inl err \<Rightarrow> snd (http_get e tkr (before_call e tkr b))
                 | Inr data \<Rightarrow> setCachedData e tkr data (snd (http_get e tkr (before_call e tkr b))))"
    using fetch_miss [OF assms] by blast
  show "calls (snd (fetchStockData_script e tkr b))
           = calls b @ [(clock (before_call e tkr b), tkr)]"
    unfolding r by (cases r) (simp_all add: setCachedData_fields http_get_fields before_call_fields)
  show "lastAPICallTime (snd (fetchStockData_script e tkr b)) = clock (before_call e tkr b)"
    unfolding r
    by (cases r) (simp_all add: setCachedData_fields http_get_browser before_call_fields)
  show "clock (before_call e tkr b) \<le> clock (snd (fetchStockData_script e tkr b))"
    unfolding r by (cases r) (simp_all add: setCachedData_fields http_get_fields)
  show "localStorage b' (cacheKey tkr) = None" if "fetchStockData_script e tkr b = (Inl err, b')"
    using that unfolding r
    by (cases r) (auto simp: http_get_browser before_call_fields(5) [OF assms])
  show "localStorage b' (cacheKey tkr)
             = (if setItem_ok e (cacheKey tkr) then Some (Entry (clock b') data) else None)"
    if "fetchStockData_script e tkr b = (Inr data, b')"
    using that unfolding r
    by (cases r)
       (auto simp: http_get_browser before_call_fields(5) [OF assms] setCachedData_def)
qed



section \<open>The rate limit\<close>

lemma spaced_append:
  "spaced d (ts @ [t]) \<longleftrightarrow> spaced d ts \<and> (ts \<noteq> [] \<longrightarrow> d \<le> t - last ts)"
  by (induction d ts rule: spaced.induct) auto

lemma spaced_pairwise:
  "spaced d ts \<Longrightarrow> 0 \<le> d \<Longrightarrow> i < j \<Longrightarrow> j < length ts \<Longrightarrow> d \<le> ts ! j - ts ! i"
proof (induction d ts arbitrary: i j rule: spaced.induct)
  case (1 d)
  then show ?case by simp
next
  case (2 d t)
  then show ?case by simp
next
  case (3 d t u ts)
  show ?case
  proof (cases i)
    case 0
    show ?thesis
    proof (cases "j = 1")
      case True
      then show ?thesis using 0 "3.prems" by simp
    next
      case False
      then obtain k where k: "j = Suc k" "0 < k" using "3.prems"(3) by (cases j) auto
      have "d \<le> (u # ts) ! k - (u # ts) ! 0"
        using "3.IH" [of 0 k] "3.prems" k by simp
      then show ?thesis using 0 k "3.prems"(1,2) by simp
    qed
  next
    case (Suc i')
    then obtain k where k: "j = Suc k" using "3.prems"(3) by (cases j) auto
    have "d \<le> (u # ts) ! k - (u # ts) ! i'"
      using "3.IH" [of i' k] "3.prems" k Suc by simp
    then show ?thesis using Suc k by simp
  qed
qed

lemma fetch_keeps_page_inv:
  assumes "page_inv b"
  shows "page_inv (snd (fetchStockData_script e tkr b))"
proof (cases "fst (getCachedData tkr b)")
  case (Some data)
  then have "fetchStockData_script e tkr b = (Inr data, snd (getCachedData tkr b))"
    by (cases "getCachedData tkr b") (simp add: fetchStockData_script_def)
  then show ?thesis using assms by (simp add: page_inv_def getCachedData_world)
next
  case None
  note f = fetch_miss_fields(1,2) [OF None, of e]
  have "calls b \<noteq> [] \<longrightarrow>
        API_RATE_LIMIT_DELAY \<le> clock (before_call e tkr b) - last (map fst (calls b))"
    using assms before_call_fields(4) [of b e tkr] by (auto simp: page_inv_def last_map)
  then show ?thesis using assms unfolding page_inv_def f by (simp add: spaced_append)
qed

lemma session_keeps_page_inv: "page_inv b \<Longrightarrow> page_inv (session e requests b)"
proof (induction requests arbitrary: b)
  case Nil
  then show ?case by simp
next
  case (Cons r rest)
  obtain idle tkr where r: "r = (idle, tkr)" by (cases r)
  have "page_inv (b\<lparr>clock := clock b + int idle\<rparr>)" using Cons.prems by (simp add: page_inv_def)
  then have "page_inv (snd (fetchStockData_script e tkr (b\<lparr>clock := clock b + int idle\<rparr>)))"
    by (rule fetch_keeps_page_inv)
  then show ?case unfolding r by (simp add: Cons.IH)
qed

lemma analyse_fields_world:
  "calls (snd (analyse e tkr w)) = calls w @ [(clock w, tkr)]"
  "clock w \<le> clock (snd (analyse e tkr w))"
  by (simp_all add: analyse_def fetchStockData_def http_get_def Let_def split: prod.splits)

lemma main_loop_keeps_loop_inv:
  "loop_inv i w \<Longrightarrow> loop_inv (i + length tickers) (fst (main_loop e i tickers (w, acc)))"
proof (induction tickers arbitrary: i w acc)
  case Nil
  then show ?case by simp
next
  case (Cons tkr rest)
  define w1 where "w1 = (if 0 < i then sleep e API_RATE_LIMIT_DELAY w else w)"
  define w2 where "w2 = snd (analyse e tkr w1)"
  have unf: "main_loop e i (tkr # rest) (w, acc)
             = main_loop e (i + 1) rest (w2, acc @ [result_of tkr (fst (analyse e tkr w1))])"
    by (simp add: w1_def w2_def Let_def split: prod.splits)
  have c1: "calls w1 = calls w" by (simp add: w1_def sleep_def)
  have gap: "calls w \<noteq> [] \<longrightarrow> API_RATE_LIMIT_DELAY \<le> clock w1 - last (map fst (calls w))"
    using Cons.prems
    by (auto simp: loop_inv_def w1_def sleep_def last_map API_RATE_LIMIT_DELAY_def)
  have "loop_inv (i + 1) w2"
    unfolding loop_inv_def w2_def analyse_fields_world(1) c1
    using Cons.prems gap analyse_fields_world(2) [of w1 e tkr]
    by (simp add: spaced_append loop_inv_def)
  then have "loop_inv (i + 1 + length rest) (fst (main_loop e (i + 1) rest
      (w2, acc @ [result_of tkr (fst (analyse e tkr w1))])))"
    by (rule Cons.IH)
  then show ?case unfolding unf by simp
qed

text \<open>
  Claim C9. In a session of the page that starts with no request sent, and in the run
  of the digest, any two outbound requests are at least the configured delay of 12
  seconds apart, whatever the tickers, the responses, the latencies and the idle times.
  A fetch of the page that misses the cache sends its one request no earlier than the
  delay after the time in \<open>lastAPICallTime\<close>.
\<close>

theorem requests_are_spaced:
  "(calls b = [] \<and> i < j \<and> j < length (calls (session e requests b)) \<longrightarrow>
      API_RATE_LIMIT_DELAY
        \<le> fst (calls (session e requests b) ! j) - fst (calls (session e requests b) ! i))
   \<and> (calls w = [] \<and> i < j \<and> j < length (calls (fst (main_loop e 0 tickers (w, [])))) \<longrightarrow>
      API_RATE_LIMIT_DELAY
        \<le> fst (calls (fst (main_loop e 0 tickers (w, []))) ! j)
          - fst (calls (fst (main_loop e 0 tickers (w, []))) ! i))
   \<and> (fst (getCachedData tkr b') = None \<longrightarrow>
      (\<exists>t. calls (snd (fetchStockData_script e tkr b')) = calls b' @ [(t, tkr)]
         \<and> lastAPICallTime b' + API_RATE_LIMIT_DELAY \<le> t))"
proof (intro conjI impI)
  assume miss: "fst (getCachedData tkr b') = None"
  show "\<exists>t. calls (snd (fetchStockData_script e tkr b')) = calls b' @ [(t, tkr)]
         \<and> lastAPICallTime b' + API_RATE_LIMIT_DELAY \<le> t"
    using fetch_miss_fields(1) [OF miss, of e] before_call_fields(4) [of b' e tkr] by blast
next
  assume h: "calls b = [] \<and> i < j \<and> j < length (calls (session e requests b))"
  then have "page_inv b" by (simp add: page_inv_def)
  then have "spaced API_RATE_LIMIT_DELAY (map fst (calls (session e requests b)))"
    using session_keeps_page_inv by (simp add: page_inv_def)
  then have "API_RATE_LIMIT_DELAY
      \<le> map fst (calls (session e requests b)) ! j - map fst (calls (session e requests b)) ! i"
    using h by (intro spaced_pairwise) (simp_all add: API_RATE_LIMIT_DELAY_def)
  then show "API_RATE_LIMIT_DELAY
        \<le> fst (calls (session e requests b) ! j) - fst (calls (session e requests b) ! i)"
    using h by simp
next
  assume h: "calls w = [] \<and> i < j \<and> j < length (calls (fst (main_loop e 0 tickers (w, []))))"
  then have "loop_inv 0 w" by (simp add: loop_inv_def)
  then have "loop_inv (0 + length tickers) (fst (main_loop e 0 tickers (w, [])))"
    by (rule main_loop_keeps_loop_inv)
  then have "spaced API_RATE_LIMIT_DELAY (map fst (calls (fst (main_loop e 0 tickers (w, [])))))"
    by (simp add: loop_inv_def)
  then have "API_RATE_LIMIT_DELAY
      \<le> map fst (calls (fst (main_loop e 0 tickers (w, [])))) ! j
        - map fst (calls (fst (main_loop e 0 tickers (w, [])))) ! i"
    using h by (intro spaced_pairwise) (simp_all add: API_RATE_LIMIT_DELAY_def)
  then show "API_RATE_LIMIT_DELAY
        \<le> fst (calls (fst (main_loop e 0 tickers (w, []))) ! j)
          - fst (calls (fst (main_loop e 0 tickers (w, []))) ! i)"
    using h by simp
qed

theorem requests_are_spaced_witness:
  "length (calls (session (\<lparr>respond = (\<lambda>k t. if t = ''AAA''
          then Response True 200 (Some \<lparr>Error_Message = None, Note = None, Information = None,
                                         Time_Series_Daily = None\<rparr>)
          else Response True 200 (Some \<lparr>Error_Message = None, Note = None, Information = None,
                 Time_Series_Daily = Some [(0, DayObject (Some ''10.5''))]\<rparr>)),
       latency = (\<lambda>k. 300), overshoot = (\<lambda>k. 2), setItem_ok = (\<lambda>key. True)\<rparr>) [(0, ''BBB''), (1000, ''CCC'')] (\<lparr>clock = 1000000, calls = [], timers = 0,
       localStorage = Map.empty, lastAPICallTime = 0\<rparr>))) = 2
   \<and> API_RATE_LIMIT_DELAY
       \<le> fst (calls (session (\<lparr>respond = (\<lambda>k t. if t = ''AAA''
          then Response True 200 (Some \<lparr>Error_Message = None, Note = None, Information = None,
                                         Time_Series_Daily = None\<rparr>)
          else Response True 200 (Some \<lparr>Error_Message = None, Note = None, Information = None,
                 Time_Series_Daily = Some [(0, DayObject (Some ''10.5''))]\<rparr>)),
       latency = (\<lambda>k. 300), overshoot = (\<lambda>k. 2), setItem_ok = (\<lambda>key. True)\<rparr>) [(0, ''BBB''), (1000, ''CCC'')] (\<lparr>clock = 1000000, calls = [], timers = 0,
       localStorage = Map.empty, lastAPICallTime = 0\<rparr>)) ! 1)
         - fst (calls (session (\<lparr>respond = (\<lambda>k t. if t = ''AAA''
          then Response True 200 (Some \<lparr>Error_Message = None, Note = None, Information = None,
                                         Time_Series_Daily = None\<rparr>)
          else Response True 200 (Some \<lparr>Error_Message = None, Note = None, Information = None,
                 Time_Series_Daily = Some [(0, DayObject (Some ''10.5''))]\<rparr>)),
       latency = (\<lambda>k. 300), overshoot = (\<lambda>k. 2), setItem_ok = (\<lambda>key. True)\<rparr>) [(0, ''BBB''), (1000, ''CCC'')] (\<lparr>clock = 1000000, calls = [], timers = 0,
       localStorage = Map.empty, lastAPICallTime = 0\<rparr>)) ! 0)
   \<and> length (calls (fst (main_loop (\<lparr>respond = (\<lambda>k t. if t = ''AAA''
          then Response True 200 (Some \<lparr>Error_Message = None, Note = None, Information = None,
                                         Time_Series_Daily = None\<rparr>)
          else Response True 200 (Some \<lparr>Error_Message = None, Note = None, Information = None,
                 Time_Series_Daily = Some [(0, DayObject (Some ''10.5''))]\<rparr>)),
       latency = (\<lambda>k. 300), overshoot = (\<lambda>k. 2), setItem_ok = (\<lambda>key. True)\<rparr>) 0 [''AAA'', ''BBB''] ((\<lparr>clock = 1000, calls = [], timers = 0\<rparr>), [])))) = 2
   \<and> API_RATE_LIMIT_DELAY
       \<le> fst (calls (fst (main_loop (\<lparr>respond = (\<lambda>k t. if t = ''AAA''
          then Response True 200 (Some \<lparr>Error_Message = None, Note = None, Information = None,
                                         Time_Series_Daily = None\<rparr>)
          else Response True 200 (Some \<lparr>Error_Message = None, Note = None, Information = None,
                 Time_Series_Daily = Some [(0, DayObject (Some ''10.5''))]\<rparr>)),
       latency = (\<lambda>k. 300), overshoot = (\<lambda>k. 2), setItem_ok = (\<lambda>key. True)\<rparr>) 0 [''AAA'', ''BBB''] ((\<lparr>clock = 1000, calls = [], timers = 0\<rparr>), []))) ! 1)
         - fst (calls (fst (main_loop (\<lparr>respond = (\<lambda>k t. if t = ''AAA''
          then Response True 200 (Some \<lparr>Error_Message = None, Note = None, Information = None,
                                         Time_Series_Daily = None\<rparr>)
          else Response True 200 (Some \<lparr>Error_Message = None, Note = None, Information = None,
                 Time_Series_Daily = Some [(0, DayObject (Some ''10.5''))]\<rparr>)),
       latency = (\<lambda>k. 300), overshoot = (\<lambda>k. 2), setItem_ok = (\<lambda>key. True)\<rparr>) 0 [''AAA'', ''BBB''] ((\<lparr>clock = 1000, calls = [], timers = 0\<rparr>), []))) ! 0)
   \<and> (\<exists>t. calls (snd (fetchStockData_script (\<lparr>respond = (\<lambda>k t. if t = ''AAA''
          then Response True 200 (Some \<lparr>Error_Message = None, Note = None, Information = None,
                                         Time_Series_Daily = None\<rparr>)
          else Response True 200 (Some \<lparr>Error_Message = None, Note = None, Information = None,
                 Time_Series_Daily = Some [(0, DayObject (Some ''10.5''))]\<rparr>)),
       latency = (\<lambda>k. 300), overshoot = (\<lambda>k. 2), setItem_ok = (\<lambda>key. True)\<rparr>) ''BBB'' (\<lparr>clock = 1000000, calls = [], timers = 0,
       localStorage = Map.empty, lastAPICallTime = 0\<rparr>)))
            = [(t, ''BBB'')] \<and> API_RATE_LIMIT_DELAY \<le> t)"
proof -
  let ?E = "\<lparr>respond = (\<lambda>k t. if t = ''AAA''
          then Response True 200 (Some \<lparr>Error_Message = None, Note = None, Information = None,
                                         Time_Series_Daily = None\<rparr>)
          else Response True 200 (Some \<lparr>Error_Message = None, Note = None, Information = None,
                 Time_Series_Daily = Some [(0, DayObject (Some ''10.5''))]\<rparr>)),
       latency = (\<lambda>k. 300), overshoot = (\<lambda>k. 2), setItem_ok = (\<lambda>key. True)\<rparr>"
  let ?P = "\<lparr>Error_Message = None, Note = None, Information = None,
       Time_Series_Daily = Some [(0, DayObject (Some ''10.5''))]\<rparr>"
  let ?W = "\<lparr>clock = 1000, calls = [], timers = 0\<rparr>"
  let ?B0 = "\<lparr>clock = 1000000, calls = [], timers = 0,
       localStorage = Map.empty, lastAPICallTime = 0\<rparr>"
  let ?B1 = "\<lparr>clock = 1000300, calls = [(1000000, ''BBB'')], timers = 0,
       localStorage = [''stock_BBB'' \<mapsto> Entry 1000300 \<lparr>Error_Message = None, Note = None, Information = None,
       Time_Series_Daily = Some [(0, DayObject (Some ''10.5''))]\<rparr>],
       lastAPICallTime = 1000000\<rparr>"
  let ?R = "[(0, ''BBB''), (1000, ''CCC'')] :: (nat \<times> string) list"
  have s: "calls (session ?E ?R ?B0) = [(1000000, ''BBB''), (1012002, ''CCC'')]"
    by (simp add: fetchStockData_script_def getCachedData_def cacheKey_def http_get_def
        setCachedData_def truthy_def no_time_series_def API_RATE_LIMIT_DELAY_def sleep_def
        CACHE_DURATION_MS_def)
  have m: "calls (fst (main_loop ?E 0 [''AAA'', ''BBB''] (?W, [])))
           = [(1000, ''AAA''), (13302, ''BBB'')]"
    by (simp add: analyse_def fetchStockData_def http_get_def sleep_def
        API_RATE_LIMIT_DELAY_def split: prod.splits)
  note t = requests_are_spaced [of ?B0 0 1 ?E ?R ?W "[''AAA'', ''BBB'']" "''BBB''" ?B0]
  have miss: "fst (getCachedData ''BBB'' ?B0) = None" by (simp add: getCachedData_def)
  have c: "\<exists>t. calls (snd (fetchStockData_script ?E ''BBB'' ?B0)) = [(t, ''BBB'')]
            \<and> API_RATE_LIMIT_DELAY \<le> t"
    using t miss by simp
  have a: "API_RATE_LIMIT_DELAY
       \<le> fst (calls (session ?E ?R ?B0) ! 1) - fst (calls (session ?E ?R ?B0) ! 0)"
    using t s by simp
  have b: "API_RATE_LIMIT_DELAY
       \<le> fst (calls (fst (main_loop ?E 0 [''AAA'', ''BBB''] (?W, []))) ! 1)
         - fst (calls (fst (main_loop ?E 0 [''AAA'', ''BBB''] (?W, []))) ! 0)"
    using t m by simp
  have ls: "length (calls (session ?E ?R ?B0)) = 2" using s by simp
  have lm: "length (calls (fst (main_loop ?E 0 [''AAA'', ''BBB''] (?W, [])))) = 2"
    using m by simp
  show ?thesis using ls a lm b c by (intro conjI)
qed

end
